theory Spec2Isabelle
  imports Complex_Main "HOL-Library.AList"
begin

text \<open>
  A shallow embedding of the chat embedding record service: the service
  (\<open>services/chatEmbeddingService.js\<close>, whose file holds two copies that differ in
  \<open>updateChatEmbedding\<close> and in the feature-vector fields), the Joi schemas and the
  middlewares \<open>validate\<close> and \<open>validateQuery\<close> (\<open>middleware/validation.js\<close>), and
  the handlers of \<open>routes/chatEmbeddings.js\<close> for the routes on one record and for the
  list query. Unless said otherwise the first copy is the one embedded. The definitions
  come first, the properties after them.
\<close>

section \<open>JavaScript values\<close>

text \<open>
  Request bodies, store documents and returned records are JavaScript objects whose key
  names matter (the store keeps the main vector under \<open>$vector\<close> and the identifier
  under \<open>_id\<close>, the public record calls them \<open>primary_embedding\<close> and \<open>id\<close>), so
  they are modelled as JSON values with objects as association lists. A finite number is
  a real; \<open>NaN\<close> and the two infinities are values of their own.
\<close>

datatype json =
    JUndefined
  | JNull
  | JBool bool
  | JNum real
  | JNaN
  | JInfinity
  | JNegInfinity
  | JStr string
  | JArr "json list"
  | JObj "(string \<times> json) list"

type_synonym obj = "(string \<times> json) list"

text \<open>Property read \<open>ob.k\<close>: a key that is absent reads as \<open>undefined\<close>.\<close>

definition jget :: "obj \<Rightarrow> string \<Rightarrow> json" where
  "jget ob k = (case map_of ob k of None \<Rightarrow> JUndefined | Some v \<Rightarrow> v)"

text \<open>Property write \<open>ob.k = v\<close>: in place when the key exists, appended otherwise.\<close>

definition assign :: "obj \<Rightarrow> string \<Rightarrow> json \<Rightarrow> obj" where
  "assign ob k v = AList.update k v ob"

text \<open>Object spread \<open>{...base, ...extra}\<close> and the store's \<open>$set\<close>: assign every entry.\<close>

definition spread :: "obj \<Rightarrow> obj \<Rightarrow> obj" where
  "spread base extra = foldl (\<lambda>acc kv. assign acc (fst kv) (snd kv)) base extra"

definition keys :: "obj \<Rightarrow> string list" where
  "keys ob = map fst ob"

text \<open>JavaScript truthiness, as used by \<open>||\<close> and \<open>if (x)\<close>.\<close>

fun truthy :: "json \<Rightarrow> bool" where
  "truthy JUndefined = False"
| "truthy JNull = False"
| "truthy (JBool b) = b"
| "truthy (JNum x) = (x \<noteq> 0)"
| "truthy JNaN = False"
| "truthy JInfinity = True"
| "truthy JNegInfinity = True"
| "truthy (JStr s) = (s \<noteq> [])"
| "truthy (JArr xs) = True"
| "truthy (JObj ob) = True"

definition js_or :: "json \<Rightarrow> json \<Rightarrow> json" where
  "js_or a b = (if truthy a then a else b)"

text \<open>
  Comparison of two strings with \<open>\<le>\<close>, by code units. ISO-8601 instants as produced by
  \<open>toISOString\<close> are compared this way, by JavaScript and by the store.
\<close>

fun str_le :: "string \<Rightarrow> string \<Rightarrow> bool" where
  "str_le [] t = True"
| "str_le (a # s) [] = False"
| "str_le (a # s) (b # t) =
     (if a = b then str_le s t else (of_char a :: nat) < of_char b)"

section \<open>The document store gateway\<close>

text \<open>
  The collection is an external service (spec section 4.2). It is modelled as the list of
  its documents, in insertion order, with the operations the service calls. A document
  travels to the store as JSON, which drops the keys whose value is \<open>undefined\<close>
  (\<open>wire\<close>). The store refuses a second document with an \<open>_id\<close> it already holds.
\<close>

type_synonym store = "obj list"

definition wire :: "obj \<Rightarrow> obj" where
  "wire ob = filter (\<lambda>kv. snd kv \<noteq> JUndefined) ob"

definition has_id :: "string \<Rightarrow> obj \<Rightarrow> bool" where
  "has_id i d = (jget d ''_id'' = JStr i)"

definition findOne :: "store \<Rightarrow> string \<Rightarrow> obj option" where
  "findOne st i = List.find (has_id i) st"

text \<open>The text stands for the store's own message, which the service only passes on.\<close>

definition duplicate_id_message :: string where
  "duplicate_id_message = ''Document already exists with the given _id''"

definition insertOne :: "store \<Rightarrow> string \<Rightarrow> obj \<Rightarrow> string + (store \<times> json)" where
  "insertOne st i doc =
     (if findOne st i = None then Inr (st @ [wire doc], JStr i)
      else Inl duplicate_id_message)"

fun replaceOne :: "store \<Rightarrow> string \<Rightarrow> obj \<Rightarrow> store \<times> nat" where
  "replaceOne [] i doc = ([], 0)"
| "replaceOne (d # ds) i doc =
     (if has_id i d then (wire doc # ds, 1)
      else (d # fst (replaceOne ds i doc), snd (replaceOne ds i doc)))"

fun deleteOne :: "store \<Rightarrow> string \<Rightarrow> store \<times> nat" where
  "deleteOne [] i = ([], 0)"
| "deleteOne (d # ds) i =
     (if has_id i d then (ds, 1)
      else (d # fst (deleteOne ds i), snd (deleteOne ds i)))"

text \<open>
  \<open>findOneAndUpdate(filter, {$set: upd}, {returnDocument: 'after'})\<close>: merges \<open>upd\<close>
  onto the first matching document and returns the merged document, or \<open>null\<close> (here
  \<open>None\<close>) when nothing matches; there is no upsert.
\<close>

fun findOneAndUpdate :: "store \<Rightarrow> string \<Rightarrow> obj \<Rightarrow> store \<times> obj option" where
  "findOneAndUpdate [] i upd = ([], None)"
| "findOneAndUpdate (d # ds) i upd =
     (if has_id i d then (spread d (wire upd) # ds, Some (spread d (wire upd)))
      else (d # fst (findOneAndUpdate ds i upd), snd (findOneAndUpdate ds i upd)))"

section \<open>The embedding record service\<close>

text \<open>
  A thrown \<open>Error\<close> is its message. Every service method wraps its body in
  \<open>try { ... } catch (error) { throw new Error(`Failed to ...: ${error.message}`) }\<close>,
  so a failure is \<open>Inl\<close> of the prefixed message. The readings of the clock
  (\<open>new Date().toISOString()\<close>) and the fresh identifier (\<open>uuidv4()\<close>) are arguments.
  A method that writes returns the store it leaves behind next to its result.
\<close>

definition not_found_message :: string where
  "not_found_message = ''Chat embedding not found''"

definition create_document :: "string \<Rightarrow> string \<Rightarrow> string \<Rightarrow> string \<Rightarrow> obj \<Rightarrow> obj" where
  "create_document uuid now1 now2 now3 embeddingData =
     [(''_id'', JStr uuid),
      (''user_id'', jget embeddingData ''user_id''),
      (''entry_id'', jget embeddingData ''entry_id''),
      (''message_content'', jget embeddingData ''message_content''),
      (''message_type'', jget embeddingData ''message_type''),
      (''timestamp'', JStr now1),
      (''session_id'', jget embeddingData ''session_id''),
      (''conversation_context'', jget embeddingData ''conversation_context''),
      (''$vector'', jget embeddingData ''primary_embedding''),
      (''lightweight_embedding'', jget embeddingData ''lightweight_embedding''),
      (''text_length'', jget embeddingData ''text_length''),
      (''processing_time_ms'', jget embeddingData ''processing_time_ms''),
      (''model_version'', jget embeddingData ''model_version''),
      (''semantic_tags'', js_or (jget embeddingData ''semantic_tags'') (JArr [])),
      (''emotion_context'', jget embeddingData ''emotion_context''),
      (''entities_mentioned'',
         js_or (jget embeddingData ''entities_mentioned'')
           (JObj [(''people'', JArr []), (''locations'', JArr []),
                  (''organizations'', JArr [])])),
      (''feature_vector'', jget embeddingData ''feature_vector''),
      (''temporal_features'', jget embeddingData ''temporal_features''),
      (''emotional_features'', jget embeddingData ''emotional_features''),
      (''semantic_features'', jget embeddingData ''semantic_features''),
      (''user_features'', jget embeddingData ''user_features''),
      (''feature_completeness'', jget embeddingData ''feature_completeness''),
      (''confidence_score'', jget embeddingData ''confidence_score''),
      (''temporal_context'', jget embeddingData ''temporal_context''),
      (''created_at'', JStr now2),
      (''updated_at'', JStr now3)]"

text \<open>
  \<open>createChatEmbedding\<close> builds the document above, inserts it, and returns
  \<open>{ id: document._id, ...document, insertedId: result.insertedId }\<close>.
\<close>

definition createChatEmbedding ::
  "store \<Rightarrow> string \<Rightarrow> string \<Rightarrow> string \<Rightarrow> string \<Rightarrow> obj \<Rightarrow> (string + obj) \<times> store" where
  "createChatEmbedding st uuid now1 now2 now3 embeddingData =
     (let document = create_document uuid now1 now2 now3 embeddingData
      in case insertOne st uuid document of
           Inl msg \<Rightarrow> (Inl (''Failed to create chat embedding: '' @ msg), st)
         | Inr (st', insertedId) \<Rightarrow>
             (Inr (assign (spread [(''id'', jget document ''_id'')] document)
                     ''insertedId'' insertedId), st'))"

text \<open>
  The public record built from a store document. The source writes this object literal
  in \<open>getChatEmbeddingById\<close> and again, key for key, in \<open>updateChatEmbedding\<close>.
\<close>

definition public_record :: "obj \<Rightarrow> obj" where
  "public_record result =
     [(''id'', jget result ''_id''),
      (''user_id'', jget result ''user_id''),
      (''entry_id'', jget result ''entry_id''),
      (''message_content'', jget result ''message_content''),
      (''message_type'', jget result ''message_type''),
      (''timestamp'', jget result ''timestamp''),
      (''session_id'', jget result ''session_id''),
      (''conversation_context'', jget result ''conversation_context''),
      (''primary_embedding'', jget result ''$vector''),
      (''lightweight_embedding'', jget result ''lightweight_embedding''),
      (''text_length'', jget result ''text_length''),
      (''processing_time_ms'', jget result ''processing_time_ms''),
      (''model_version'', jget result ''model_version''),
      (''semantic_tags'', jget result ''semantic_tags''),
      (''emotion_context'', jget result ''emotion_context''),
      (''entities_mentioned'', jget result ''entities_mentioned''),
      (''feature_vector'', jget result ''feature_vector''),
      (''temporal_features'', jget result ''temporal_features''),
      (''emotional_features'', jget result ''emotional_features''),
      (''semantic_features'', jget result ''semantic_features''),
      (''user_features'', jget result ''user_features''),
      (''feature_completeness'', jget result ''feature_completeness''),
      (''confidence_score'', jget result ''confidence_score''),
      (''temporal_context'', jget result ''temporal_context''),
      (''created_at'', jget result ''created_at''),
      (''updated_at'', jget result ''updated_at'')]"

definition getChatEmbeddingById :: "store \<Rightarrow> string \<Rightarrow> string + obj" where
  "getChatEmbeddingById st i =
     (case findOne st i of
        None \<Rightarrow> Inl (''Failed to get chat embedding: '' @ not_found_message)
      | Some result \<Rightarrow> Inr (public_record result))"

text \<open>
  \<open>updateChatEmbedding\<close>, first version ("REPLACES the entire entry"): the replacement
  is built from the request alone, but for \<open>_id\<close> and \<open>created_at\<close>.
\<close>

definition replacement_document :: "string \<Rightarrow> string \<Rightarrow> string \<Rightarrow> obj \<Rightarrow> obj \<Rightarrow> obj" where
  "replacement_document i now1 now2 existingEntry newEmbeddingData =
     [(''_id'', JStr i),
      (''user_id'', jget newEmbeddingData ''user_id''),
      (''entry_id'', jget newEmbeddingData ''entry_id''),
      (''message_content'', jget newEmbeddingData ''message_content''),
      (''message_type'', jget newEmbeddingData ''message_type''),
      (''timestamp'', js_or (jget newEmbeddingData ''timestamp'') (JStr now1)),
      (''session_id'', jget newEmbeddingData ''session_id''),
      (''conversation_context'', jget newEmbeddingData ''conversation_context''),
      (''$vector'', jget newEmbeddingData ''primary_embedding''),
      (''lightweight_embedding'', jget newEmbeddingData ''lightweight_embedding''),
      (''text_length'', jget newEmbeddingData ''text_length''),
      (''processing_time_ms'', jget newEmbeddingData ''processing_time_ms''),
      (''model_version'', jget newEmbeddingData ''model_version''),
      (''semantic_tags'', js_or (jget newEmbeddingData ''semantic_tags'') (JArr [])),
      (''emotion_context'', jget newEmbeddingData ''emotion_context''),
      (''entities_mentioned'',
         js_or (jget newEmbeddingData ''entities_mentioned'')
           (JObj [(''people'', JArr []), (''locations'', JArr []),
                  (''organizations'', JArr [])])),
      (''feature_vector'', jget newEmbeddingData ''feature_vector''),
      (''temporal_features'', jget newEmbeddingData ''temporal_features''),
      (''emotional_features'', jget newEmbeddingData ''emotional_features''),
      (''semantic_features'', jget newEmbeddingData ''semantic_features''),
      (''user_features'', jget newEmbeddingData ''user_features''),
      (''feature_completeness'', jget newEmbeddingData ''feature_completeness''),
      (''confidence_score'', jget newEmbeddingData ''confidence_score''),
      (''temporal_context'', jget newEmbeddingData ''temporal_context''),
      (''created_at'', jget existingEntry ''created_at''),
      (''updated_at'', JStr now2)]"

text \<open>
  The message of the \<open>TypeError\<close> for reading \<open>_id\<close> of \<open>null\<close>, should the re-read after
  a successful replace find nothing.
\<close>

definition null_read_message :: string where
  "null_read_message = ''Cannot read properties of null (reading '_id')''"

definition updateChatEmbedding ::
  "store \<Rightarrow> string \<Rightarrow> string \<Rightarrow> string \<Rightarrow> obj \<Rightarrow> (string + obj) \<times> store" where
  "updateChatEmbedding st i now1 now2 newEmbeddingData =
     (case findOne st i of
        None \<Rightarrow> (Inl (''Failed to update chat embedding: '' @ not_found_message), st)
      | Some existingEntry \<Rightarrow>
          (let result =
                 replaceOne st i (replacement_document i now1 now2 existingEntry newEmbeddingData)
           in if snd result = 0
              then (Inl (''Failed to update chat embedding: '' @ not_found_message), fst result)
              else (case findOne (fst result) i of
                      None \<Rightarrow>
                        (Inl (''Failed to update chat embedding: '' @ null_read_message),
                         fst result)
                    | Some updatedEntry \<Rightarrow> (Inr (public_record updatedEntry), fst result))))"

text \<open>
  \<open>updateChatEmbedding\<close>, second version (the second copy of the service in the same
  file): a sparse \<open>updateDoc\<close> of the fields present in the request, merged onto the
  stored document with \<open>$set\<close>. This copy knows no feature-vector fields.
\<close>

definition assign_if :: "obj \<Rightarrow> bool \<times> string \<times> json \<Rightarrow> obj" where
  "assign_if ob ckv = (if fst ckv then assign ob (fst (snd ckv)) (snd (snd ckv)) else ob)"

definition merge_update_doc :: "string \<Rightarrow> obj \<Rightarrow> obj" where
  "merge_update_doc now updateData =
     foldl assign_if [(''updated_at'', JStr now)]
       [(truthy (jget updateData ''primary_embedding''),
           ''$vector'', jget updateData ''primary_embedding''),
        (truthy (jget updateData ''message_content''),
           ''message_content'', jget updateData ''message_content''),
        (truthy (jget updateData ''message_type''),
           ''message_type'', jget updateData ''message_type''),
        (truthy (jget updateData ''conversation_context''),
           ''conversation_context'', jget updateData ''conversation_context''),
        (truthy (jget updateData ''lightweight_embedding''),
           ''lightweight_embedding'', jget updateData ''lightweight_embedding''),
        (jget updateData ''text_length'' \<noteq> JUndefined,
           ''text_length'', jget updateData ''text_length''),
        (jget updateData ''processing_time_ms'' \<noteq> JUndefined,
           ''processing_time_ms'', jget updateData ''processing_time_ms''),
        (truthy (jget updateData ''model_version''),
           ''model_version'', jget updateData ''model_version''),
        (truthy (jget updateData ''semantic_tags''),
           ''semantic_tags'', jget updateData ''semantic_tags''),
        (truthy (jget updateData ''emotion_context''),
           ''emotion_context'', jget updateData ''emotion_context''),
        (truthy (jget updateData ''entities_mentioned''),
           ''entities_mentioned'', jget updateData ''entities_mentioned''),
        (truthy (jget updateData ''temporal_context''),
           ''temporal_context'', jget updateData ''temporal_context'')]"

definition public_record_merge :: "obj \<Rightarrow> obj" where
  "public_record_merge result =
     [(''id'', jget result ''_id''),
      (''user_id'', jget result ''user_id''),
      (''entry_id'', jget result ''entry_id''),
      (''message_content'', jget result ''message_content''),
      (''message_type'', jget result ''message_type''),
      (''timestamp'', jget result ''timestamp''),
      (''session_id'', jget result ''session_id''),
      (''conversation_context'', jget result ''conversation_context''),
      (''primary_embedding'', jget result ''$vector''),
      (''lightweight_embedding'', jget result ''lightweight_embedding''),
      (''text_length'', jget result ''text_length''),
      (''processing_time_ms'', jget result ''processing_time_ms''),
      (''model_version'', jget result ''model_version''),
      (''semantic_tags'', jget result ''semantic_tags''),
      (''emotion_context'', jget result ''emotion_context''),
      (''entities_mentioned'', jget result ''entities_mentioned''),
      (''temporal_context'', jget result ''temporal_context''),
      (''created_at'', jget result ''created_at''),
      (''updated_at'', jget result ''updated_at'')]"

definition updateChatEmbedding_merge ::
  "store \<Rightarrow> string \<Rightarrow> string \<Rightarrow> obj \<Rightarrow> (string + obj) \<times> store" where
  "updateChatEmbedding_merge st i now updateData =
     (let result = findOneAndUpdate st i (merge_update_doc now updateData)
      in case snd result of
           None \<Rightarrow> (Inl (''Failed to update chat embedding: '' @ not_found_message), fst result)
         | Some doc \<Rightarrow> (Inr (public_record_merge doc), fst result))"

definition deleteChatEmbedding :: "store \<Rightarrow> string \<Rightarrow> (string + obj) \<times> store" where
  "deleteChatEmbedding st i =
     (let result = deleteOne st i
      in if snd result = 0
         then (Inl (''Failed to delete chat embedding: '' @ not_found_message), fst result)
         else (Inr [(''id'', JStr i), (''deleted'', JBool True),
                    (''deletedCount'', JNum (real (snd result)))], fst result))"

section \<open>The schema contract\<close>

text \<open>
  The schemas are built with the Joi library. A Joi schema is modelled by what
  \<open>schema.validate(value, {abortEarly: false, allowUnknown: false, stripUnknown: true})\<close>
  reports in \<open>error.details\<close>: the list of violations, each the path of the value (its
  keys and indices joined by dots) and Joi's error code, all of them collected. An
  unknown key is stripped from the validated copy and is no violation. A key is optional
  unless marked \<open>required\<close>; \<open>default\<close> changes the validated copy only and reports
  nothing. The texts set with \<open>messages\<close> replace the message of a violation, not its
  path or code, and are left out.

  The options leave Joi's \<open>convert\<close> on, so a string is accepted where the schema
  declares a number or a boolean: the number or boolean goes to the validated copy, and
  the value that was sent stays a string. What the library itself decides is a parameter
  of the model, the record \<open>joi\<close>: \<open>is_guid\<close> is its test for a GUID, \<open>as_number\<close>
  is what it makes of a string where a number is declared (not numeric, a numeral that a
  double cannot hold safely, or the number read), and \<open>is_iso_date\<close> is whether it reads
  a value as a date in ISO format.
\<close>

type_synonym violation = "string \<times> string"

type_synonym schema = "string \<Rightarrow> json \<Rightarrow> violation list"

datatype conversion = Not_numeric | Unsafe_number | Converted real

record joi =
  is_guid :: "string \<Rightarrow> bool"
  as_number :: "string \<Rightarrow> conversion"
  is_iso_date :: "json \<Rightarrow> bool"

definition child :: "string \<Rightarrow> string \<Rightarrow> string" where
  "child p k = (if p = [] then k else p @ ''.'' @ k)"

text \<open>The decimal numeral of an array index, for the path of an array item.\<close>

definition digit_char :: "nat \<Rightarrow> char" where
  "digit_char d = ''0123456789'' ! d"

fun decimal :: "nat \<Rightarrow> string" where
  "decimal n =
     (if n < 10 then [digit_char n] else decimal (n div 10) @ [digit_char (n mod 10)])"

declare decimal.simps [simp del]

text \<open>\<open>toLowerCase\<close> on the letters A to Z.\<close>

definition lower_char :: "char \<Rightarrow> char" where
  "lower_char c =
     (case map_of (zip ''ABCDEFGHIJKLMNOPQRSTUVWXYZ'' ''abcdefghijklmnopqrstuvwxyz'') c of
        None \<Rightarrow> c
      | Some l \<Rightarrow> l)"

definition required :: "schema \<Rightarrow> schema" where
  "required s p v = (if v = JUndefined then [(p, ''any.required'')] else s p v)"

definition optional :: "schema \<Rightarrow> schema" where
  "optional s p v = (if v = JUndefined then [] else s p v)"

definition with_default :: "json \<Rightarrow> schema \<Rightarrow> schema" where
  "with_default d s p v = (if v = JUndefined then [] else s p v)"

definition Joi_string :: "(string \<Rightarrow> string option) list \<Rightarrow> schema" where
  "Joi_string rules p v =
     (case v of
        JStr s \<Rightarrow>
          (if s = [] then [(p, ''string.empty'')]
           else map (Pair p) (List.map_filter (\<lambda>r. r s) rules))
      | _ \<Rightarrow> [(p, ''string.base'')])"

definition uuid_rule :: "(string \<Rightarrow> bool) \<Rightarrow> string \<Rightarrow> string option" where
  "uuid_rule guid s = (if guid s then None else Some ''string.guid'')"

definition min_length :: "nat \<Rightarrow> string \<Rightarrow> string option" where
  "min_length n s = (if length s < n then Some ''string.min'' else None)"

definition max_length :: "nat \<Rightarrow> string \<Rightarrow> string option" where
  "max_length n s = (if n < length s then Some ''string.max'' else None)"

text \<open>
  \<open>Joi.string().valid(...)\<close>: a listed value is accepted at once; any other value is
  reported as \<open>any.only\<close>, and then the test of the type adds its own violation to it.
\<close>

definition Joi_string_valid :: "string list \<Rightarrow> schema" where
  "Joi_string_valid allowed p v =
     (case v of
        JStr s \<Rightarrow>
          (if s \<in> set allowed then []
           else if s = [] then [(p, ''any.only''), (p, ''string.empty'')]
           else [(p, ''any.only'')])
      | _ \<Rightarrow> [(p, ''any.only''), (p, ''string.base'')])"

text \<open>
  \<open>Joi.number()\<close>: a number beyond \<open>Number.MAX_SAFE_INTEGER\<close> in magnitude is
  \<open>number.unsafe\<close> and its rules are not run; a string is read by \<open>as_number\<close>.
\<close>

definition number_rules :: "(real \<Rightarrow> string option) list \<Rightarrow> string \<Rightarrow> real \<Rightarrow> violation list" where
  "number_rules rules p x =
     (if 9007199254740991 < abs x then [(p, ''number.unsafe'')]
      else map (Pair p) (List.map_filter (\<lambda>r. r x) rules))"

definition Joi_number :: "joi \<Rightarrow> (real \<Rightarrow> string option) list \<Rightarrow> schema" where
  "Joi_number J rules p v =
     (case v of
        JNum x \<Rightarrow> number_rules rules p x
      | JStr s \<Rightarrow>
          (case as_number J s of
             Converted x \<Rightarrow> number_rules rules p x
           | Unsafe_number \<Rightarrow> [(p, ''number.unsafe'')]
           | Not_numeric \<Rightarrow> [(p, ''number.base'')])
      | JInfinity \<Rightarrow> [(p, ''number.infinity'')]
      | JNegInfinity \<Rightarrow> [(p, ''number.infinity'')]
      | _ \<Rightarrow> [(p, ''number.base'')])"

definition min_value :: "real \<Rightarrow> real \<Rightarrow> string option" where
  "min_value lo x = (if x < lo then Some ''number.min'' else None)"

definition max_value :: "real \<Rightarrow> real \<Rightarrow> string option" where
  "max_value hi x = (if hi < x then Some ''number.max'' else None)"

definition integer :: "real \<Rightarrow> string option" where
  "integer x = (if real_of_int \<lfloor>x\<rfloor> = x then None else Some ''number.integer'')"

text \<open>\<open>Joi.boolean()\<close>: a boolean, or the string \<open>true\<close> or \<open>false\<close> in any case.\<close>

definition Joi_boolean :: schema where
  "Joi_boolean p v =
     (case v of
        JBool b \<Rightarrow> []
      | JStr s \<Rightarrow>
          (if map lower_char s = ''true'' \<or> map lower_char s = ''false'' then []
           else [(p, ''boolean.base'')])
      | _ \<Rightarrow> [(p, ''boolean.base'')])"

text \<open>\<open>Joi.date().iso()\<close>.\<close>

definition Joi_date_iso :: "joi \<Rightarrow> schema" where
  "Joi_date_iso J p v =
     (if is_iso_date J v then []
      else (case v of JStr s \<Rightarrow> [(p, ''date.format'')] | _ \<Rightarrow> [(p, ''date.base'')]))"

text \<open>
  \<open>Joi.array().items(...)\<close>, with \<open>length(n)\<close> when a length is given: the violations
  of the items, each under the path of its index, then that of the length.
\<close>

definition Joi_array :: "schema \<Rightarrow> nat option \<Rightarrow> schema" where
  "Joi_array items len p v =
     (case v of
        JArr xs \<Rightarrow>
          concat
            (map (\<lambda>ix. if snd ix = JUndefined then [(child p (decimal (fst ix)), ''array.sparse'')]
                        else items (child p (decimal (fst ix))) (snd ix))
               (enumerate 0 xs)) @
          (case len of
             None \<Rightarrow> []
           | Some n \<Rightarrow> if length xs = n then [] else [(p, ''array.length'')])
      | _ \<Rightarrow> [(p, ''array.base'')])"

definition Joi_object :: "(string \<times> schema) list \<Rightarrow> schema" where
  "Joi_object children p v =
     (case v of
        JObj ob \<Rightarrow> concat (map (\<lambda>ks. snd ks (child p (fst ks)) (jget ob (fst ks))) children)
      | _ \<Rightarrow> [(p, ''object.base'')])"

definition emotion_names :: "string list" where
  "emotion_names =
     [''joy'', ''sadness'', ''anger'', ''fear'', ''surprise'', ''disgust'',
      ''anticipation'', ''trust'']"

definition message_types :: "string list" where
  "message_types = [''user_message'', ''ai_response'', ''system_message'']"

definition emotionSchema :: "joi \<Rightarrow> schema" where
  "emotionSchema J =
     Joi_object
       [(''joy'', with_default (JNum 0) (Joi_number J [min_value 0, max_value 1])),
        (''sadness'', with_default (JNum 0) (Joi_number J [min_value 0, max_value 1])),
        (''anger'', with_default (JNum 0) (Joi_number J [min_value 0, max_value 1])),
        (''fear'', with_default (JNum 0) (Joi_number J [min_value 0, max_value 1])),
        (''surprise'', with_default (JNum 0) (Joi_number J [min_value 0, max_value 1])),
        (''disgust'', with_default (JNum 0) (Joi_number J [min_value 0, max_value 1])),
        (''anticipation'', with_default (JNum 0) (Joi_number J [min_value 0, max_value 1])),
        (''trust'', with_default (JNum 0) (Joi_number J [min_value 0, max_value 1]))]"

definition emotionContextSchema :: "joi \<Rightarrow> schema" where
  "emotionContextSchema J =
     Joi_object
       [(''dominant_emotion'', required (Joi_string_valid emotion_names)),
        (''intensity'', required (Joi_number J [min_value 0, max_value 1])),
        (''emotions'', required (emotionSchema J))]"

definition entitiesMentionedSchema :: schema where
  "entitiesMentionedSchema =
     Joi_object
       [(''people'', with_default (JArr []) (Joi_array (Joi_string []) None)),
        (''locations'', with_default (JArr []) (Joi_array (Joi_string []) None)),
        (''organizations'', with_default (JArr []) (Joi_array (Joi_string []) None))]"

definition temporalContextSchema :: "joi \<Rightarrow> schema" where
  "temporalContextSchema J =
     Joi_object
       [(''hour_of_day'', required (Joi_number J [integer, min_value 0, max_value 23])),
        (''day_of_week'', required (Joi_number J [integer, min_value 0, max_value 6])),
        (''is_weekend'', required Joi_boolean)]"

definition chatEmbeddingSchema :: "joi \<Rightarrow> schema" where
  "chatEmbeddingSchema J =
     Joi_object
       [(''user_id'', required (Joi_string [uuid_rule (is_guid J)])),
        (''entry_id'', required (Joi_string [uuid_rule (is_guid J)])),
        (''message_content'', required (Joi_string [min_length 1, max_length 10000])),
        (''message_type'', required (Joi_string_valid message_types)),
        (''session_id'', required (Joi_string [uuid_rule (is_guid J)])),
        (''conversation_context'', optional (Joi_string [max_length 2000])),
        (''primary_embedding'', required (Joi_array (Joi_number J []) (Some 768))),
        (''lightweight_embedding'', required (Joi_array (Joi_number J []) (Some 384))),
        (''text_length'', required (Joi_number J [integer, min_value 0])),
        (''processing_time_ms'', required (Joi_number J [min_value 0])),
        (''model_version'', required (Joi_string [])),
        (''semantic_tags'',
           with_default (JArr []) (optional (Joi_array (Joi_string []) None))),
        (''emotion_context'', optional (emotionContextSchema J)),
        (''entities_mentioned'',
           with_default
             (JObj [(''people'', JArr []), (''locations'', JArr []),
                    (''organizations'', JArr [])])
             (optional entitiesMentionedSchema)),
        (''feature_vector'', required (Joi_array (Joi_number J []) (Some 90))),
        (''temporal_features'', required (Joi_array (Joi_number J []) (Some 25))),
        (''emotional_features'', required (Joi_array (Joi_number J []) (Some 20))),
        (''semantic_features'', required (Joi_array (Joi_number J []) (Some 30))),
        (''user_features'', required (Joi_array (Joi_number J []) (Some 15))),
        (''feature_completeness'', required (Joi_number J [min_value 0, max_value 1])),
        (''confidence_score'', required (Joi_number J [min_value 0, max_value 1])),
        (''temporal_context'', required (temporalContextSchema J))]"

definition updateChatEmbeddingSchema :: "joi \<Rightarrow> schema" where
  "updateChatEmbeddingSchema J =
     Joi_object
       [(''message_content'', optional (Joi_string [min_length 1, max_length 10000])),
        (''message_type'', optional (Joi_string_valid message_types)),
        (''conversation_context'', optional (Joi_string [max_length 2000])),
        (''primary_embedding'', optional (Joi_array (Joi_number J []) (Some 768))),
        (''lightweight_embedding'', optional (Joi_array (Joi_number J []) (Some 384))),
        (''text_length'', optional (Joi_number J [integer, min_value 0])),
        (''processing_time_ms'', optional (Joi_number J [min_value 0])),
        (''model_version'', optional (Joi_string [])),
        (''semantic_tags'', optional (Joi_array (Joi_string []) None)),
        (''emotion_context'', optional (emotionContextSchema J)),
        (''entities_mentioned'', optional entitiesMentionedSchema),
        (''feature_vector'', optional (Joi_array (Joi_number J []) (Some 90))),
        (''temporal_features'', optional (Joi_array (Joi_number J []) (Some 25))),
        (''emotional_features'', optional (Joi_array (Joi_number J []) (Some 20))),
        (''semantic_features'', optional (Joi_array (Joi_number J []) (Some 30))),
        (''user_features'', optional (Joi_array (Joi_number J []) (Some 15))),
        (''feature_completeness'', optional (Joi_number J [min_value 0, max_value 1])),
        (''confidence_score'', optional (Joi_number J [min_value 0, max_value 1])),
        (''temporal_context'', optional (temporalContextSchema J))]"

text \<open>The contract of the query string of \<open>GET /query\<close>.\<close>

definition sort_fields :: "string list" where
  "sort_fields = [''timestamp'', ''processing_time_ms'', ''text_length'']"

definition querySchema :: "joi \<Rightarrow> schema" where
  "querySchema J =
     Joi_object
       [(''user_id'', optional (Joi_string [uuid_rule (is_guid J)])),
        (''session_id'', optional (Joi_string [uuid_rule (is_guid J)])),
        (''message_type'', optional (Joi_string_valid message_types)),
        (''date_range'',
           optional
             (Joi_object
                [(''start'', optional (Joi_date_iso J)), (''end'', optional (Joi_date_iso J))])),
        (''limit'',
           with_default (JNum 20) (Joi_number J [integer, min_value 1, max_value 100])),
        (''offset'', with_default (JNum 0) (Joi_number J [integer, min_value 0])),
        (''sort_by'', with_default (JStr ''timestamp'') (Joi_string_valid sort_fields)),
        (''sort_order'', with_default (JStr ''desc'') (Joi_string_valid [''asc'', ''desc'']))]"

section \<open>The routes\<close>

text \<open>
  What a handler does with the response: \<open>Created\<close> and \<open>Ok\<close> are
  \<open>res.status(201).json\<close> and \<open>res.json\<close> with \<open>data\<close>; \<open>BadRequest\<close> is the
  status 400 of \<open>validate\<close> with the violations' messages and \<open>BadQuery\<close> that of
  \<open>validateQuery\<close>; \<open>NotFound\<close> is the status 404 with the error
  \<open>Chat embedding not found\<close>; \<open>Forwarded\<close> is \<open>next(error)\<close>, the error handed to
  the generic error handler.
\<close>

datatype response =
    Created obj
  | Ok obj
  | BadRequest "violation list"
  | BadQuery "violation list"
  | NotFound
  | Forwarded string

text \<open>
  The middleware \<open>validate(schema)\<close> reads only \<open>error\<close> from the result of
  \<open>schema.validate\<close>: the validated copy (defaults applied, unknown keys stripped) is
  dropped, and the handler works on the request body as it was sent.
\<close>

definition validate :: "schema \<Rightarrow> json \<Rightarrow> store \<Rightarrow> response \<times> store \<Rightarrow> response \<times> store" where
  "validate schema body st handler =
     (let error = schema [] body
      in if error \<noteq> [] then (BadRequest error, st) else handler)"

text \<open>
  The middleware \<open>validateQuery(schema)\<close> does the same with the query string: the
  handler reads \<open>req.query\<close> as the parser of the query string left it, every value a
  string, an array or an object.
\<close>

definition validateQuery :: "schema \<Rightarrow> json \<Rightarrow> response \<Rightarrow> response" where
  "validateQuery schema query handler =
     (let error = schema [] query
      in if error \<noteq> [] then BadQuery error else handler)"

definition post_route ::
  "joi \<Rightarrow> store \<Rightarrow> string \<Rightarrow> string \<Rightarrow> string \<Rightarrow> string \<Rightarrow> obj \<Rightarrow> response \<times> store" where
  "post_route J st uuid now1 now2 now3 body =
     validate (chatEmbeddingSchema J) (JObj body) st
       (case createChatEmbedding st uuid now1 now2 now3 body of
          (Inr chatEmbedding, st') \<Rightarrow> (Created chatEmbedding, st')
        | (Inl msg, st') \<Rightarrow> (Forwarded msg, st'))"

definition get_route :: "store \<Rightarrow> string \<Rightarrow> response" where
  "get_route st i =
     (case getChatEmbeddingById st i of
        Inr chatEmbedding \<Rightarrow> Ok chatEmbedding
      | Inl msg \<Rightarrow> if msg = ''Chat embedding not found'' then NotFound else Forwarded msg)"

definition put_route ::
  "joi \<Rightarrow> store \<Rightarrow> string \<Rightarrow> string \<Rightarrow> string \<Rightarrow> obj \<Rightarrow> response \<times> store" where
  "put_route J st i now1 now2 body =
     validate (updateChatEmbeddingSchema J) (JObj body) st
       (case updateChatEmbedding st i now1 now2 body of
          (Inr chatEmbedding, st') \<Rightarrow> (Ok chatEmbedding, st')
        | (Inl msg, st') \<Rightarrow>
            (if msg = ''Chat embedding not found'' then NotFound else Forwarded msg, st'))"

definition delete_route :: "store \<Rightarrow> string \<Rightarrow> response \<times> store" where
  "delete_route st i =
     (case deleteChatEmbedding st i of
        (Inr result, st') \<Rightarrow> (Ok result, st')
      | (Inl msg, st') \<Rightarrow>
          (if msg = ''Chat embedding not found'' then NotFound else Forwarded msg, st'))"

section \<open>Filtered find in the store\<close>

text \<open>
  The store's \<open>find\<close> and \<open>countDocuments\<close> take a filter object: each key is a
  path into the document (dotted for a nested field) and each value is either a value to
  equal or an object of operators, of which the service uses \<open>$gte\<close>, \<open>$lte\<close> and
  \<open>$in\<close>. Numbers compare as numbers and strings as strings; a field that is absent
  satisfies no comparison. The vector-ranked find scores every matching document with
  the store's own similarity \<open>sim\<close> (a parameter: the service never computes it),
  returns the best \<open>limit\<close> of them, best first, each annotated with
  \<open>$similarity\<close>.
\<close>

fun split_dots :: "string \<Rightarrow> string list" where
  "split_dots [] = [[]]"
| "split_dots (c # cs) =
     (if c = CHR ''.'' then [] # split_dots cs
      else (case split_dots cs of [] \<Rightarrow> [[c]] | p # ps \<Rightarrow> (c # p) # ps))"

definition jprop :: "json \<Rightarrow> string \<Rightarrow> json" where
  "jprop v k = (case v of JObj ob \<Rightarrow> jget ob k | _ \<Rightarrow> JUndefined)"

fun descend :: "json \<Rightarrow> string list \<Rightarrow> json" where
  "descend v [] = v"
| "descend v (k # ks) = descend (jprop v k) ks"

definition js_ge :: "json \<Rightarrow> json \<Rightarrow> bool" where
  "js_ge a b =
     (case a of
        JNum x \<Rightarrow> (case b of JNum y \<Rightarrow> y \<le> x | _ \<Rightarrow> False)
      | JStr s \<Rightarrow> (case b of JStr t \<Rightarrow> str_le t s | _ \<Rightarrow> False)
      | _ \<Rightarrow> False)"

definition operator_holds :: "json \<Rightarrow> string \<times> json \<Rightarrow> bool" where
  "operator_holds v oa =
     (if fst oa = ''$gte'' then js_ge v (snd oa)
      else if fst oa = ''$lte'' then js_ge (snd oa) v
      else if fst oa = ''$in'' then
        (case snd oa of
           JArr vs \<Rightarrow> (case v of JArr xs \<Rightarrow> list_ex (\<lambda>x. x \<in> set vs) xs | _ \<Rightarrow> v \<in> set vs)
         | _ \<Rightarrow> False)
      else False)"

definition condition_holds :: "json \<Rightarrow> json \<Rightarrow> bool" where
  "condition_holds v c =
     (case c of
        JObj ops \<Rightarrow>
          (if ops \<noteq> [] \<and> list_all (\<lambda>oa. take 1 (fst oa) = ''$'') ops
           then list_all (operator_holds v) ops
           else v = c)
      | _ \<Rightarrow> v = c)"

definition matches :: "obj \<Rightarrow> obj \<Rightarrow> bool" where
  "matches query d =
     list_all (\<lambda>kc. condition_holds (descend (JObj d) (split_dots (fst kc))) (snd kc)) query"

definition countDocuments :: "store \<Rightarrow> obj \<Rightarrow> nat" where
  "countDocuments st query = length (filter (matches (wire query)) st)"

definition find_by_vector ::
  "(real list \<Rightarrow> json \<Rightarrow> real) \<Rightarrow> store \<Rightarrow> obj \<Rightarrow> real list \<Rightarrow> nat \<Rightarrow> obj list" where
  "find_by_vector sim st query queryVector n =
     take n
       (sort_key (\<lambda>d. - sim queryVector (jget d ''$vector''))
          (map (\<lambda>d. assign d ''$similarity'' (JNum (sim queryVector (jget d ''$vector''))))
             (filter (matches (wire query)) st)))"

text \<open>
  The sorted, paged find of the list query: a stable sort on one field, ascending or
  descending, then \<open>skip\<close> and \<open>limit\<close>.
\<close>

definition js_le :: "json \<Rightarrow> json \<Rightarrow> bool" where
  "js_le a b =
     (case a of
        JNum x \<Rightarrow> (case b of JNum y \<Rightarrow> x \<le> y | _ \<Rightarrow> True)
      | JStr s \<Rightarrow> (case b of JStr t \<Rightarrow> str_le s t | _ \<Rightarrow> True)
      | _ \<Rightarrow> True)"

fun insert_by :: "('a \<Rightarrow> 'a \<Rightarrow> bool) \<Rightarrow> 'a \<Rightarrow> 'a list \<Rightarrow> 'a list" where
  "insert_by le x [] = [x]"
| "insert_by le x (y # ys) = (if le x y then x # y # ys else y # insert_by le x ys)"

definition find_sorted :: "store \<Rightarrow> obj \<Rightarrow> string \<Rightarrow> bool \<Rightarrow> nat \<Rightarrow> nat \<Rightarrow> obj list" where
  "find_sorted st query sort_field ascending skip n =
     take n (drop skip
       (foldr (insert_by (\<lambda>a b. if ascending then js_le (jget a sort_field) (jget b sort_field)
                                   else js_le (jget b sort_field) (jget a sort_field)))
          (filter (matches (wire query)) st) []))"

section \<open>Similarity search and the paginated query\<close>

definition has_items :: "json \<Rightarrow> bool" where
  "has_items v =
     (case v of
        JArr xs \<Rightarrow> xs \<noteq> []
      | JStr s \<Rightarrow> s \<noteq> []
      | JObj ob \<Rightarrow> (case jget ob ''length'' of JNum n \<Rightarrow> 0 < n | _ \<Rightarrow> False)
      | _ \<Rightarrow> False)"

text \<open>
  The \<open>timestamp\<close> condition of a date range:
  \<open>query.timestamp = {}; if (start) query.timestamp.$gte = start; if (end) query.timestamp.$lte = end\<close>.
\<close>

definition date_condition :: "json \<Rightarrow> obj" where
  "date_condition date_range =
     foldl assign_if []
       [(truthy (jprop date_range ''start''), ''$gte'', jprop date_range ''start''),
        (truthy (jprop date_range ''end''), ''$lte'', jprop date_range ''end'')]"

text \<open>The filter that \<open>findSimilarChatEmbeddings\<close> builds from \<open>options.filters\<close>.\<close>

definition similar_query :: "obj \<Rightarrow> obj" where
  "similar_query filters =
     foldl assign_if []
       [(truthy (jget filters ''user_id''), ''user_id'', jget filters ''user_id''),
        (truthy (jget filters ''session_id''), ''session_id'', jget filters ''session_id''),
        (truthy (jget filters ''message_type''), ''message_type'', jget filters ''message_type''),
        (truthy (jget filters ''date_range''),
           ''timestamp'', JObj (date_condition (jget filters ''date_range''))),
        (truthy (jget filters ''emotion_filter'') \<and>
         truthy (jprop (jget filters ''emotion_filter'') ''dominant_emotion''),
           ''emotion_context.dominant_emotion'',
           jprop (jget filters ''emotion_filter'') ''dominant_emotion''),
        (truthy (jget filters ''emotion_filter'') \<and>
         truthy (jprop (jget filters ''emotion_filter'') ''min_intensity''),
           ''emotion_context.intensity'',
           JObj [(''$gte'', jprop (jget filters ''emotion_filter'') ''min_intensity'')]),
        (truthy (jget filters ''semantic_tags'') \<and> has_items (jget filters ''semantic_tags''),
           ''semantic_tags'', JObj [(''$in'', jget filters ''semantic_tags'')])]"

definition similar_record :: "obj \<Rightarrow> obj" where
  "similar_record result =
     [(''id'', jget result ''_id''),
      (''user_id'', jget result ''user_id''),
      (''entry_id'', jget result ''entry_id''),
      (''message_content'', jget result ''message_content''),
      (''message_type'', jget result ''message_type''),
      (''timestamp'', jget result ''timestamp''),
      (''session_id'', jget result ''session_id''),
      (''conversation_context'', jget result ''conversation_context''),
      (''primary_embedding'', jget result ''$vector''),
      (''lightweight_embedding'', jget result ''lightweight_embedding''),
      (''text_length'', jget result ''text_length''),
      (''processing_time_ms'', jget result ''processing_time_ms''),
      (''model_version'', jget result ''model_version''),
      (''semantic_tags'', jget result ''semantic_tags''),
      (''emotion_context'', jget result ''emotion_context''),
      (''entities_mentioned'', jget result ''entities_mentioned''),
      (''feature_vector'', jget result ''feature_vector''),
      (''temporal_features'', jget result ''temporal_features''),
      (''emotional_features'', jget result ''emotional_features''),
      (''semantic_features'', jget result ''semantic_features''),
      (''user_features'', jget result ''user_features''),
      (''feature_completeness'', jget result ''feature_completeness''),
      (''confidence_score'', jget result ''confidence_score''),
      (''temporal_context'', jget result ''temporal_context''),
      (''similarity_score'', jget result ''$similarity''),
      (''created_at'', jget result ''created_at''),
      (''updated_at'', jget result ''updated_at'')]"

text \<open>
  \<open>findSimilarChatEmbeddings(queryVector, {limit = 10, filters = {}})\<close>; an option that
  is \<open>undefined\<close> is \<open>None\<close>. The query vector is the validated array of numbers.
\<close>

definition findSimilarChatEmbeddings ::
  "(real list \<Rightarrow> json \<Rightarrow> real) \<Rightarrow> store \<Rightarrow> real list \<Rightarrow> nat option \<Rightarrow> obj option \<Rightarrow> obj" where
  "findSimilarChatEmbeddings sim st queryVector limit_option filters_option =
     (let n = (case limit_option of None \<Rightarrow> 10 | Some l \<Rightarrow> l);
          filters = (case filters_option of None \<Rightarrow> [] | Some f \<Rightarrow> f);
          results = find_by_vector sim st (similar_query filters) queryVector n
      in [(''query_vector_dimensions'', JNum (real (length queryVector))),
          (''results_count'', JNum (real (length results))),
          (''max_similarity_score'',
             if results \<noteq> [] then jget (hd results) ''$similarity'' else JNum 0),
          (''min_similarity_score'',
             if results \<noteq> [] then jget (last results) ''$similarity'' else JNum 0),
          (''results'', JArr (map (\<lambda>result. JObj (similar_record result)) results))])"

text \<open>
  The options of the list query are an object, as \<open>queryChatEmbeddings\<close> destructures
  it. The routes \<open>/user/:userId\<close> and \<open>/session/:sessionId\<close> pass \<open>limit\<close> and
  \<open>offset\<close> through \<open>parseInt\<close>, so numbers; the route \<open>/query\<close> passes \<open>req.query\<close>
  itself, where they are strings.
\<close>

definition list_query :: "obj \<Rightarrow> obj" where
  "list_query queryOptions =
     foldl assign_if []
       [(truthy (jget queryOptions ''user_id''), ''user_id'', jget queryOptions ''user_id''),
        (truthy (jget queryOptions ''session_id''),
           ''session_id'', jget queryOptions ''session_id''),
        (truthy (jget queryOptions ''message_type''),
           ''message_type'', jget queryOptions ''message_type''),
        (truthy (jget queryOptions ''date_range''),
           ''timestamp'', JObj (date_condition (jget queryOptions ''date_range'')))]"

definition list_record :: "obj \<Rightarrow> obj" where
  "list_record result =
     [(''id'', jget result ''_id''),
      (''user_id'', jget result ''user_id''),
      (''entry_id'', jget result ''entry_id''),
      (''message_content'', jget result ''message_content''),
      (''message_type'', jget result ''message_type''),
      (''timestamp'', jget result ''timestamp''),
      (''session_id'', jget result ''session_id''),
      (''conversation_context'', jget result ''conversation_context''),
      (''text_length'', jget result ''text_length''),
      (''processing_time_ms'', jget result ''processing_time_ms''),
      (''model_version'', jget result ''model_version''),
      (''semantic_tags'', jget result ''semantic_tags''),
      (''emotion_context'', jget result ''emotion_context''),
      (''entities_mentioned'', jget result ''entities_mentioned''),
      (''feature_vector'', jget result ''feature_vector''),
      (''temporal_features'', jget result ''temporal_features''),
      (''emotional_features'', jget result ''emotional_features''),
      (''semantic_features'', jget result ''semantic_features''),
      (''user_features'', jget result ''user_features''),
      (''feature_completeness'', jget result ''feature_completeness''),
      (''confidence_score'', jget result ''confidence_score''),
      (''temporal_context'', jget result ''temporal_context''),
      (''created_at'', jget result ''created_at''),
      (''updated_at'', jget result ''updated_at'')]"

text \<open>
  The pagination metadata is computed with JavaScript's \<open>/\<close>, \<open>+\<close>, \<open><\<close>, \<open>>\<close>,
  \<open>Math.floor\<close> and \<open>Math.ceil\<close> on whatever values \<open>limit\<close> and \<open>offset\<close> are, so
  the operators are modelled with their conversions. What the language and the store's
  client decide, and the service does not compute, is a parameter of the model, the
  record \<open>platform\<close>: \<open>to_double\<close> is the double (or infinity) nearest to the exact
  result of an arithmetic operation, \<open>string_to_number\<close> is the number a string
  converts to, \<open>number_to_string\<close> is the string a finite number converts to, and
  \<open>cursor_count\<close> is the number of documents that the store's cursor takes an argument
  of \<open>skip\<close> or \<open>limit\<close> to mean. The model has one zero: the sign of a zero, which
  only the sign of an infinite quotient can show, is not represented.
\<close>

record platform =
  to_double :: "real \<Rightarrow> json"
  string_to_number :: "string \<Rightarrow> json"
  number_to_string :: "real \<Rightarrow> string"
  cursor_count :: "json \<Rightarrow> nat"

fun join_comma :: "string list \<Rightarrow> string" where
  "join_comma [] = []"
| "join_comma [s] = s"
| "join_comma (s # t # ts) = s @ '','' @ join_comma (t # ts)"

text \<open>Conversion to a string; an array joins its items, \<open>null\<close> and \<open>undefined\<close> as empty.\<close>

fun to_string :: "platform \<Rightarrow> json \<Rightarrow> string" where
  "to_string P JUndefined = ''undefined''"
| "to_string P JNull = ''null''"
| "to_string P (JBool b) = (if b then ''true'' else ''false'')"
| "to_string P (JNum x) = number_to_string P x"
| "to_string P JNaN = ''NaN''"
| "to_string P JInfinity = ''Infinity''"
| "to_string P JNegInfinity = ''-Infinity''"
| "to_string P (JStr s) = s"
| "to_string P (JArr xs) =
     join_comma (map (\<lambda>x. if x = JUndefined \<or> x = JNull then [] else to_string P x) xs)"
| "to_string P (JObj ob) = ''[object Object]''"

text \<open>Conversion to a number; an array or an object converts through its string.\<close>

definition to_number :: "platform \<Rightarrow> json \<Rightarrow> json" where
  "to_number P v =
     (case v of
        JUndefined \<Rightarrow> JNaN
      | JNull \<Rightarrow> JNum 0
      | JBool b \<Rightarrow> JNum (if b then 1 else 0)
      | JStr s \<Rightarrow> string_to_number P s
      | JArr xs \<Rightarrow> string_to_number P (to_string P v)
      | JObj ob \<Rightarrow> string_to_number P (to_string P v)
      | _ \<Rightarrow> v)"

text \<open>The values that \<open>+\<close> concatenates and \<open><\<close> compares as strings.\<close>

definition is_text :: "json \<Rightarrow> bool" where
  "is_text v = (case v of JStr s \<Rightarrow> True | JArr xs \<Rightarrow> True | JObj ob \<Rightarrow> True | _ \<Rightarrow> False)"

definition number_add :: "platform \<Rightarrow> json \<Rightarrow> json \<Rightarrow> json" where
  "number_add P a b =
     (case a of
        JNum x \<Rightarrow> (case b of JNum y \<Rightarrow> to_double P (x + y) | _ \<Rightarrow> b)
      | JInfinity \<Rightarrow>
          (case b of JNum y \<Rightarrow> JInfinity | JInfinity \<Rightarrow> JInfinity | _ \<Rightarrow> JNaN)
      | JNegInfinity \<Rightarrow>
          (case b of JNum y \<Rightarrow> JNegInfinity | JNegInfinity \<Rightarrow> JNegInfinity | _ \<Rightarrow> JNaN)
      | _ \<Rightarrow> JNaN)"

text \<open>\<open>a + b\<close>: a concatenation as soon as one side is a string, an array or an object.\<close>

definition js_plus :: "platform \<Rightarrow> json \<Rightarrow> json \<Rightarrow> json" where
  "js_plus P a b =
     (if is_text a \<or> is_text b then JStr (to_string P a @ to_string P b)
      else number_add P (to_number P a) (to_number P b))"

definition number_divide :: "platform \<Rightarrow> json \<Rightarrow> json \<Rightarrow> json" where
  "number_divide P a b =
     (case a of
        JNum x \<Rightarrow>
          (case b of
             JNum y \<Rightarrow>
               (if y \<noteq> 0 then to_double P (x / y)
                else if x = 0 then JNaN else if 0 < x then JInfinity else JNegInfinity)
           | JInfinity \<Rightarrow> JNum 0
           | JNegInfinity \<Rightarrow> JNum 0
           | _ \<Rightarrow> JNaN)
      | JInfinity \<Rightarrow>
          (case b of JNum y \<Rightarrow> if 0 \<le> y then JInfinity else JNegInfinity | _ \<Rightarrow> JNaN)
      | JNegInfinity \<Rightarrow>
          (case b of JNum y \<Rightarrow> if 0 \<le> y then JNegInfinity else JInfinity | _ \<Rightarrow> JNaN)
      | _ \<Rightarrow> JNaN)"

text \<open>\<open>a / b\<close>: both sides converted to numbers.\<close>

definition js_divide :: "platform \<Rightarrow> json \<Rightarrow> json \<Rightarrow> json" where
  "js_divide P a b = number_divide P (to_number P a) (to_number P b)"

text \<open>\<open>Math.floor\<close> and \<open>Math.ceil\<close> of a number.\<close>

definition js_floor :: "json \<Rightarrow> json" where
  "js_floor v = (case v of JNum x \<Rightarrow> JNum (real_of_int \<lfloor>x\<rfloor>) | _ \<Rightarrow> v)"

definition js_ceil :: "json \<Rightarrow> json" where
  "js_ceil v = (case v of JNum x \<Rightarrow> JNum (real_of_int \<lceil>x\<rceil>) | _ \<Rightarrow> v)"

definition number_less :: "json \<Rightarrow> json \<Rightarrow> bool" where
  "number_less a b =
     (case a of
        JNum x \<Rightarrow> (case b of JNum y \<Rightarrow> x < y | JInfinity \<Rightarrow> True | _ \<Rightarrow> False)
      | JNegInfinity \<Rightarrow> (case b of JNum y \<Rightarrow> True | JInfinity \<Rightarrow> True | _ \<Rightarrow> False)
      | _ \<Rightarrow> False)"

text \<open>
  \<open>a < b\<close>: by code units when both sides are strings, arrays or objects, as numbers
  otherwise; a comparison with \<open>NaN\<close> is false.
\<close>

definition js_less :: "platform \<Rightarrow> json \<Rightarrow> json \<Rightarrow> bool" where
  "js_less P a b =
     (if is_text a \<and> is_text b
      then str_le (to_string P a) (to_string P b) \<and> to_string P a \<noteq> to_string P b
      else number_less (to_number P a) (to_number P b))"

definition pagination :: "platform \<Rightarrow> json \<Rightarrow> json \<Rightarrow> json \<Rightarrow> obj" where
  "pagination P page_offset page_limit totalCount =
     [(''total_count'', totalCount),
      (''current_page'', js_plus P (js_floor (js_divide P page_offset page_limit)) (JNum 1)),
      (''total_pages'', js_ceil (js_divide P totalCount page_limit)),
      (''has_next'', JBool (js_less P (js_plus P page_offset page_limit) totalCount)),
      (''has_previous'', JBool (js_less P (JNum 0) page_offset))]"

text \<open>A default of a destructuring, \<open>{k = d}\<close>: taken when the property is \<open>undefined\<close>.\<close>

definition default_to :: "json \<Rightarrow> json \<Rightarrow> json" where
  "default_to d v = (if v = JUndefined then d else v)"

definition queryChatEmbeddings :: "platform \<Rightarrow> store \<Rightarrow> obj \<Rightarrow> obj" where
  "queryChatEmbeddings P st queryOptions =
     (let page_limit = default_to (JNum 20) (jget queryOptions ''limit'');
          page_offset = default_to (JNum 0) (jget queryOptions ''offset'');
          sort_by = default_to (JStr ''timestamp'') (jget queryOptions ''sort_by'');
          sort_order = default_to (JStr ''desc'') (jget queryOptions ''sort_order'');
          query = list_query queryOptions;
          results =
            find_sorted st query (to_string P sort_by) (sort_order = JStr ''asc'')
              (cursor_count P page_offset) (cursor_count P page_limit);
          totalCount = to_double P (real (countDocuments st query))
      in [(''results'', JArr (map (\<lambda>result. JObj (list_record result)) results)),
          (''pagination'', JObj (pagination P page_offset page_limit totalCount))])"

text \<open>The route \<open>GET /query\<close>: the handler passes \<open>req.query\<close> to the service.\<close>

definition query_route :: "joi \<Rightarrow> platform \<Rightarrow> store \<Rightarrow> obj \<Rightarrow> response" where
  "query_route J P st query =
     validateQuery (querySchema J) (JObj query) (Ok (queryChatEmbeddings P st query))"

section \<open>Names and sample data used in the statements\<close>

text \<open>The fields of the full creation contract (the keys of \<open>chatEmbeddingSchema\<close>).\<close>

definition contract_fields :: "string list" where
  "contract_fields =
     [''user_id'', ''entry_id'', ''message_content'', ''message_type'', ''session_id'',
      ''conversation_context'', ''primary_embedding'', ''lightweight_embedding'',
      ''text_length'', ''processing_time_ms'', ''model_version'', ''semantic_tags'',
      ''emotion_context'', ''entities_mentioned'', ''feature_vector'', ''temporal_features'',
      ''emotional_features'', ''semantic_features'', ''user_features'',
      ''feature_completeness'', ''confidence_score'', ''temporal_context'']"

text \<open>The keys of a store document, in the order \<open>createChatEmbedding\<close> writes them.\<close>

definition document_keys :: "string list" where
  "document_keys =
     [''_id'', ''user_id'', ''entry_id'', ''message_content'', ''message_type'', ''timestamp'',
      ''session_id'', ''conversation_context'', ''$vector'', ''lightweight_embedding'',
      ''text_length'', ''processing_time_ms'', ''model_version'', ''semantic_tags'',
      ''emotion_context'', ''entities_mentioned'', ''feature_vector'', ''temporal_features'',
      ''emotional_features'', ''semantic_features'', ''user_features'',
      ''feature_completeness'', ''confidence_score'', ''temporal_context'', ''created_at'',
      ''updated_at'']"

text \<open>
  A request body in the style of \<open>validChatEmbedding\<close> of \<open>tests/api.test.js\<close>, with the
  feature vectors the schema requires. Its \<open>emotions\<close> object names two of the eight
  emotions and its \<open>entities_mentioned\<close> names only \<open>locations\<close>.
\<close>

definition sample_embedding :: obj where
  "sample_embedding =
     [(''user_id'', JStr ''550e8400-e29b-41d4-a716-446655440000''),
      (''entry_id'', JStr ''550e8400-e29b-41d4-a716-446655440002''),
      (''message_content'', JStr ''Hello, I am feeling anxious about my upcoming exam.''),
      (''message_type'', JStr ''user_message''),
      (''session_id'', JStr ''550e8400-e29b-41d4-a716-446655440001''),
      (''conversation_context'', JStr ''Student discussing exam anxiety''),
      (''primary_embedding'', JArr (replicate 768 (JNum (1 / 10)))),
      (''lightweight_embedding'', JArr (replicate 384 (JNum (2 / 10)))),
      (''text_length'', JNum 54),
      (''processing_time_ms'', JNum (251 / 2)),
      (''model_version'', JStr ''all-mpnet-base-v2''),
      (''semantic_tags'', JArr [JStr ''anxiety'', JStr ''exam'', JStr ''student'']),
      (''emotion_context'',
         JObj [(''dominant_emotion'', JStr ''fear''), (''intensity'', JNum (7 / 10)),
               (''emotions'', JObj [(''joy'', JNum (1 / 10)), (''fear'', JNum (7 / 10))])]),
      (''entities_mentioned'', JObj [(''locations'', JArr [JStr ''school''])]),
      (''feature_vector'', JArr (replicate 90 (JNum 0))),
      (''temporal_features'', JArr (replicate 25 (JNum 0))),
      (''emotional_features'', JArr (replicate 20 (JNum 0))),
      (''semantic_features'', JArr (replicate 30 (JNum 0))),
      (''user_features'', JArr (replicate 15 (JNum 0))),
      (''feature_completeness'', JNum (9 / 10)),
      (''confidence_score'', JNum (8 / 10)),
      (''temporal_context'',
         JObj [(''hour_of_day'', JNum 14), (''day_of_week'', JNum 1),
               (''is_weekend'', JBool False)])]"

text \<open>
  Stand-ins for the library and the platform, for the samples. A GUID is a string of 36
  characters; a string of decimal digits is the number it writes, in Joi and in
  JavaScript, and a whole number converts to its decimal numeral; no value is an ISO
  date; the arithmetic is exact; the cursor reads a number or a string of digits as the
  count it writes.
\<close>

definition sample_guid :: "string \<Rightarrow> bool" where
  "sample_guid s = (length s = 36)"

definition digit_value :: "char \<Rightarrow> nat option" where
  "digit_value c =
     (if 48 \<le> (of_char c :: nat) \<and> (of_char c :: nat) \<le> 57 then Some (of_char c - 48)
      else None)"

fun digits_value :: "nat \<Rightarrow> string \<Rightarrow> nat option" where
  "digits_value acc [] = Some acc"
| "digits_value acc (c # cs) =
     (case digit_value c of None \<Rightarrow> None | Some d \<Rightarrow> digits_value (10 * acc + d) cs)"

definition decimal_value :: "string \<Rightarrow> nat option" where
  "decimal_value s = (if s = [] then None else digits_value 0 s)"

definition sample_joi :: joi where
  "sample_joi =
     \<lparr>is_guid = sample_guid,
      as_number =
        (\<lambda>s. case decimal_value s of
               None \<Rightarrow> Not_numeric
             | Some n \<Rightarrow> if n \<le> 9007199254740991 then Converted (real n) else Unsafe_number),
      is_iso_date = (\<lambda>v. False)\<rparr>"

definition sample_platform :: platform where
  "sample_platform =
     \<lparr>to_double = JNum,
      string_to_number =
        (\<lambda>s. case decimal_value s of None \<Rightarrow> JNaN | Some n \<Rightarrow> JNum (real n)),
      number_to_string = (\<lambda>x. decimal (nat \<lfloor>x\<rfloor>)),
      cursor_count =
        (\<lambda>v. case v of
               JNum x \<Rightarrow> nat \<lfloor>x\<rfloor>
             | JStr s \<Rightarrow> (case decimal_value s of None \<Rightarrow> 0 | Some n \<Rightarrow> n)
             | _ \<Rightarrow> 0)\<rparr>"

definition sample_id :: string where
  "sample_id = ''7c9e6679-7425-40de-944b-e07fc1f90ae7''"

definition sample_time :: string where
  "sample_time = ''2025-01-01T10:00:00.000Z''"

definition later_time :: string where
  "later_time = ''2025-01-01T10:00:05.000Z''"

text \<open>A partial update body, after the README's example of \<open>PUT /:id\<close>.\<close>

definition sample_update :: obj where
  "sample_update =
     [(''semantic_tags'',
         JArr [JStr ''anxiety'', JStr ''education'', JStr ''stress'', JStr ''coping''])]"

text \<open>
  The contract fields that the whole-record replacement writes without a default, the
  sample document as the store holds it after a creation, and the keys of the record
  that the field-merge update returns, but for \<open>updated_at\<close>.
\<close>

definition cleared_fields :: "string list" where
  "cleared_fields =
     [''user_id'', ''entry_id'', ''message_content'', ''message_type'', ''session_id'',
      ''conversation_context'', ''primary_embedding'', ''lightweight_embedding'',
      ''text_length'', ''processing_time_ms'', ''model_version'',
      ''emotion_context'', ''feature_vector'', ''temporal_features'',
      ''emotional_features'', ''semantic_features'', ''user_features'',
      ''feature_completeness'', ''confidence_score'', ''temporal_context'']"

definition sample_document :: obj where
  "sample_document =
     wire (create_document sample_id sample_time sample_time sample_time sample_embedding)"

definition merge_fields :: "string list" where
  "merge_fields =
     [''id'', ''user_id'', ''entry_id'', ''message_content'', ''message_type'', ''timestamp'',
      ''session_id'', ''conversation_context'', ''primary_embedding'',
      ''lightweight_embedding'', ''text_length'', ''processing_time_ms'', ''model_version'',
      ''semantic_tags'', ''emotion_context'', ''entities_mentioned'', ''temporal_context'',
      ''created_at'']"

text \<open>
  The declared lengths of the vector fields, by their names in a request and in a store
  document; a body whose primary embedding has 767 entries; and the value
  \<open>createChatEmbedding\<close> returns for the sample body.
\<close>

definition vector_lengths :: "(string \<times> nat) list" where
  "vector_lengths =
     [(''primary_embedding'', 768), (''lightweight_embedding'', 384), (''feature_vector'', 90),
      (''temporal_features'', 25), (''emotional_features'', 20), (''semantic_features'', 30),
      (''user_features'', 15)]"

definition stored_vector_lengths :: "(string \<times> nat) list" where
  "stored_vector_lengths =
     [(''$vector'', 768), (''lightweight_embedding'', 384), (''feature_vector'', 90),
      (''temporal_features'', 25), (''emotional_features'', 20), (''semantic_features'', 30),
      (''user_features'', 15)]"

definition array_length :: "json \<Rightarrow> nat option" where
  "array_length v = (case v of JArr xs \<Rightarrow> Some (length xs) | _ \<Rightarrow> None)"

definition has_length :: "obj \<Rightarrow> string \<times> nat \<Rightarrow> bool" where
  "has_length ob kn = (array_length (jget ob (fst kn)) = Some (snd kn))"

definition short_embedding :: obj where
  "short_embedding =
     assign sample_embedding ''primary_embedding'' (JArr (replicate 767 (JNum (1 / 10))))"

definition sample_created_record :: obj where
  "sample_created_record =
     (''id'', JStr sample_id) #
     create_document sample_id sample_time sample_time sample_time sample_embedding @
     [(''insertedId'', JStr sample_id)]"

text \<open>
  The options of a list query for the user messages with a given offset and limit, and
  a collection of 25 user messages and 5 responses.
\<close>

definition sample_query :: "json \<Rightarrow> json \<Rightarrow> obj" where
  "sample_query page_offset page_limit =
     [(''message_type'', JStr ''user_message''), (''limit'', page_limit),
      (''offset'', page_offset)]"

definition message_document :: "string \<Rightarrow> nat \<Rightarrow> obj" where
  "message_document ty i =
     [(''_id'', JStr (ty @ replicate (Suc i) (CHR ''i''))), (''message_type'', JStr ty),
      (''timestamp'', JStr sample_time)]"

definition sample_collection :: store where
  "sample_collection =
     map (message_document ''user_message'') [0..<25] @
     map (message_document ''ai_response'') [0..<5]"

text \<open>
  The records in the \<open>results\<close> array of a returned bundle; a list query without
  filters; the sample body without its optional \<open>emotion_context\<close> and the document a
  creation stores for it; the search filter that asks for a minimum intensity; and a
  store similarity that scores every document 1.
\<close>

definition result_records :: "obj \<Rightarrow> obj list" where
  "result_records res =
     (case jget res ''results'' of
        JArr items \<Rightarrow> map (\<lambda>v. case v of JObj ob \<Rightarrow> ob | _ \<Rightarrow> []) items
      | _ \<Rightarrow> [])"

definition plain_query :: obj where
  "plain_query = []"

definition plain_embedding :: obj where
  "plain_embedding = filter (\<lambda>kv. fst kv \<noteq> ''emotion_context'') sample_embedding"

definition plain_document :: obj where
  "plain_document =
     wire (create_document sample_id sample_time sample_time sample_time plain_embedding)"

definition intensity_filter :: "real \<Rightarrow> obj" where
  "intensity_filter m = [(''emotion_filter'', JObj [(''min_intensity'', JNum m)])]"

definition unit_similarity :: "real list \<Rightarrow> json \<Rightarrow> real" where
  "unit_similarity queryVector v = 1"

section \<open>Properties of the service\<close>

subsection \<open>Reading objects\<close>

lemma jget_Nil: "jget [] k = JUndefined"
  by (simp add: jget_def)

lemma jget_Cons: "jget ((a, v) # ob) k = (if k = a then v else jget ob k)"
  by (simp add: jget_def)

text \<open>
  Used as a congruence rule, this keeps the simplifier from walking through the object
  on every step of a lookup.
\<close>

lemma jget_weak_cong: "k = k' \<Longrightarrow> jget ob k = jget ob k'"
  by simp

lemma map_of_filter_absent: "k \<notin> fst ` set ob \<Longrightarrow> map_of (filter P ob) k = None"
  by (induction ob) auto

lemma jget_wire: "distinct (map fst ob) \<Longrightarrow> jget (wire ob) k = jget ob k"
  unfolding jget_def wire_def
  by (induction ob) (auto split: option.splits simp: map_of_filter_absent map_of_eq_None_iff)

lemma update_fresh: "k \<notin> fst ` set ob \<Longrightarrow> AList.update k v ob = ob @ [(k, v)]"
  by (induction ob) auto

lemma spread_disjoint:
  "distinct (map fst extra) \<Longrightarrow> fst ` set base \<inter> fst ` set extra = {} \<Longrightarrow>
   spread base extra = base @ extra"
proof (induction extra arbitrary: base)
  case Nil
  then show ?case by (simp add: spread_def)
next
  case (Cons kv extra)
  have "spread base (kv # extra) = spread (base @ [kv]) extra"
    using Cons.prems by (cases kv) (simp add: spread_def assign_def update_fresh)
  also have "\<dots> = (base @ [kv]) @ extra"
    using Cons.prems by (intro Cons.IH) auto
  finally show ?case by simp
qed

subsection \<open>The store\<close>

lemma findOne_snoc:
  "findOne (st @ [d]) i =
     (case findOne st i of Some x \<Rightarrow> Some x | None \<Rightarrow> if has_id i d then Some d else None)"
  unfolding findOne_def by (induction st) auto

subsection \<open>The document of a creation\<close>

lemma jget_create_document:
  "jget (create_document u n1 n2 n3 e) k =
   jget [(''_id'', JStr u),
      (''user_id'', jget e ''user_id''),
      (''entry_id'', jget e ''entry_id''),
      (''message_content'', jget e ''message_content''),
      (''message_type'', jget e ''message_type''),
      (''timestamp'', JStr n1),
      (''session_id'', jget e ''session_id''),
      (''conversation_context'', jget e ''conversation_context''),
      (''$vector'', jget e ''primary_embedding''),
      (''lightweight_embedding'', jget e ''lightweight_embedding''),
      (''text_length'', jget e ''text_length''),
      (''processing_time_ms'', jget e ''processing_time_ms''),
      (''model_version'', jget e ''model_version''),
      (''semantic_tags'', js_or (jget e ''semantic_tags'') (JArr [])),
      (''emotion_context'', jget e ''emotion_context''),
      (''entities_mentioned'',
         js_or (jget e ''entities_mentioned'')
           (JObj [(''people'', JArr []), (''locations'', JArr []),
                  (''organizations'', JArr [])])),
      (''feature_vector'', jget e ''feature_vector''),
      (''temporal_features'', jget e ''temporal_features''),
      (''emotional_features'', jget e ''emotional_features''),
      (''semantic_features'', jget e ''semantic_features''),
      (''user_features'', jget e ''user_features''),
      (''feature_completeness'', jget e ''feature_completeness''),
      (''confidence_score'', jget e ''confidence_score''),
      (''temporal_context'', jget e ''temporal_context''),
      (''created_at'', JStr n2),
      (''updated_at'', JStr n3)] k"
  by (simp only: create_document_def)

lemma jget_public_record:
  "jget (public_record d) k =
   jget [(''id'', jget d ''_id''),
      (''user_id'', jget d ''user_id''),
      (''entry_id'', jget d ''entry_id''),
      (''message_content'', jget d ''message_content''),
      (''message_type'', jget d ''message_type''),
      (''timestamp'', jget d ''timestamp''),
      (''session_id'', jget d ''session_id''),
      (''conversation_context'', jget d ''conversation_context''),
      (''primary_embedding'', jget d ''$vector''),
      (''lightweight_embedding'', jget d ''lightweight_embedding''),
      (''text_length'', jget d ''text_length''),
      (''processing_time_ms'', jget d ''processing_time_ms''),
      (''model_version'', jget d ''model_version''),
      (''semantic_tags'', jget d ''semantic_tags''),
      (''emotion_context'', jget d ''emotion_context''),
      (''entities_mentioned'', jget d ''entities_mentioned''),
      (''feature_vector'', jget d ''feature_vector''),
      (''temporal_features'', jget d ''temporal_features''),
      (''emotional_features'', jget d ''emotional_features''),
      (''semantic_features'', jget d ''semantic_features''),
      (''user_features'', jget d ''user_features''),
      (''feature_completeness'', jget d ''feature_completeness''),
      (''confidence_score'', jget d ''confidence_score''),
      (''temporal_context'', jget d ''temporal_context''),
      (''created_at'', jget d ''created_at''),
      (''updated_at'', jget d ''updated_at'')] k"
  by (simp only: public_record_def)

lemma keys_create_document: "keys (create_document u n1 n2 n3 e) = document_keys"
  by (simp add: keys_def create_document_def document_keys_def)

lemma distinct_document_keys: "distinct document_keys"
  by (simp add: document_keys_def)

lemma create_document_distinct: "distinct (map fst (create_document u n1 n2 n3 e))"
  using keys_create_document [of u n1 n2 n3 e] distinct_document_keys by (simp add: keys_def)

lemma jget_stored_create:
  "jget (wire (create_document u n1 n2 n3 e)) k = jget (create_document u n1 n2 n3 e) k"
  by (rule jget_wire [OF create_document_distinct])

lemma create_document_id: "jget (create_document u n1 n2 n3 e) ''_id'' = JStr u"
  by (simp add: jget_create_document jget_Cons cong: jget_weak_cong)

lemma create_result_shape:
  "assign (spread [(''id'', v)] (create_document u n1 n2 n3 e)) ''insertedId'' w =
   (''id'', v) # create_document u n1 n2 n3 e @ [(''insertedId'', w)]"
proof -
  let ?d = "create_document u n1 n2 n3 e"
  have ks: "fst ` set ?d = set document_keys"
    using keys_create_document [of u n1 n2 n3 e] by (simp add: keys_def flip: set_map)
  have "spread [(''id'', v)] ?d = [(''id'', v)] @ ?d"
    by (rule spread_disjoint)
      (simp_all add: create_document_distinct ks, simp add: document_keys_def)
  moreover have "''insertedId'' \<notin> fst ` set ([(''id'', v)] @ ?d)"
    by (simp add: ks image_Un) (simp add: document_keys_def)
  ultimately show ?thesis
    by (simp add: assign_def update_fresh)
qed

lemma create_success:
  assumes "createChatEmbedding st u n1 n2 n3 body = (Inr r, st')"
  shows "findOne st u = None"
    and "st' = st @ [wire (create_document u n1 n2 n3 body)]"
    and "r = (''id'', JStr u) # create_document u n1 n2 n3 body @ [(''insertedId'', JStr u)]"
  using assms
  by (auto simp: createChatEmbedding_def insertOne_def Let_def create_document_id
      create_result_shape split: if_splits)

lemma create_fresh:
  assumes "findOne st u = None"
  shows "createChatEmbedding st u n1 n2 n3 body =
    (Inr ((''id'', JStr u) # create_document u n1 n2 n3 body @ [(''insertedId'', JStr u)]),
     st @ [wire (create_document u n1 n2 n3 body)])"
  using assms
  by (simp add: createChatEmbedding_def insertOne_def Let_def create_document_id
      create_result_shape)

lemma getById_created:
  assumes "findOne st u = None"
  shows "getChatEmbeddingById (st @ [wire (create_document u n1 n2 n3 body)]) u =
         Inr (public_record (wire (create_document u n1 n2 n3 body)))"
proof -
  have "has_id u (wire (create_document u n1 n2 n3 body))"
    by (simp add: has_id_def jget_stored_create create_document_id)
  then show ?thesis
    by (simp add: getChatEmbeddingById_def findOne_snoc assms)
qed

lemma jget_created:
  "jget (public_record (wire (create_document u n1 n2 n3 body))) k =
   jget (public_record (create_document u n1 n2 n3 body)) k"
  by (simp only: jget_public_record jget_stored_create)

subsection \<open>The schema contract\<close>

lemma Joi_array_accepts:
  assumes "\<forall>x \<in> set xs. x \<noteq> JUndefined \<and> (\<forall>q. items q x = [])"
  shows "Joi_array items len p (JArr xs) =
     (case len of
        None \<Rightarrow> []
      | Some n \<Rightarrow> if length xs = n then [] else [(p, ''array.length'')])"
  using assms by (auto simp: Joi_array_def in_set_enumerate_eq)

lemma Joi_number_plain:
  "abs x \<le> 9007199254740991 \<Longrightarrow> Joi_number J [] p (JNum x) = []"
  by (simp add: Joi_number_def number_rules_def map_filter_simps)

text \<open>
  A numeric string is judged as the number Joi reads in it, and the first whole number
  past \<open>Number.MAX_SAFE_INTEGER\<close> is refused whatever the rules are.
\<close>

lemma Joi_number_of_string:
  "as_number J s = Converted x \<Longrightarrow>
   Joi_number J rules p (JStr s) = Joi_number J rules p (JNum x)"
  by (simp add: Joi_number_def)

lemma Joi_number_unsafe:
  "Joi_number J rules p (JNum 9007199254740992) = [(p, ''number.unsafe'')]"
  by (simp add: Joi_number_def number_rules_def)

lemma Joi_object_field:
  assumes "Joi_object fs p (JObj ob) = []" and "(k, s) \<in> set fs"
  shows "s (child p k) (jget ob k) = []"
  using assms by (force simp: Joi_object_def)

lemma sample_embedding_valid: "chatEmbeddingSchema sample_joi [] (JObj sample_embedding) = []"
  unfolding chatEmbeddingSchema_def sample_embedding_def
  by (simp add: Joi_object_def jget_Cons jget_Nil child_def required_def optional_def
      with_default_def Joi_array_accepts Joi_number_plain Joi_string_def Joi_number_def
      uuid_rule_def sample_joi_def sample_guid_def min_length_def max_length_def
      Joi_string_valid_def number_rules_def map_filter_simps message_types_def
      emotion_names_def integer_def min_value_def max_value_def Joi_boolean_def
      emotionContextSchema_def emotionSchema_def entitiesMentionedSchema_def
      temporalContextSchema_def cong: jget_weak_cong)

lemma semantic_tags_accepted:
  assumes "chatEmbeddingSchema J [] (JObj body) = []"
  shows "jget body ''semantic_tags'' = JUndefined \<or> (\<exists>xs. jget body ''semantic_tags'' = JArr xs)"
proof -
  have "with_default (JArr []) (optional (Joi_array (Joi_string []) None))
          (child [] ''semantic_tags'') (jget body ''semantic_tags'') = []"
    by (rule Joi_object_field [OF assms [unfolded chatEmbeddingSchema_def]]) simp
  then show ?thesis
    by (auto simp: with_default_def optional_def Joi_array_def split: if_splits json.splits)
qed

lemma entities_mentioned_accepted:
  assumes "chatEmbeddingSchema J [] (JObj body) = []"
  shows "jget body ''entities_mentioned'' = JUndefined \<or>
         (\<exists>ob. jget body ''entities_mentioned'' = JObj ob)"
proof -
  have "with_default
          (JObj [(''people'', JArr []), (''locations'', JArr []), (''organizations'', JArr [])])
          (optional entitiesMentionedSchema)
          (child [] ''entities_mentioned'') (jget body ''entities_mentioned'') = []"
    by (rule Joi_object_field [OF assms [unfolded chatEmbeddingSchema_def]]) simp
  then show ?thesis
    by (auto simp: with_default_def optional_def entitiesMentionedSchema_def Joi_object_def
        split: if_splits json.splits)
qed

subsection \<open>Create, then read\<close>

text \<open>
  Claim C2. For every body accepted by the full creation contract, if
  \<open>createChatEmbedding\<close> succeeds, then \<open>getChatEmbeddingById\<close> on the identifier it
  returned succeeds with a record that equals the body on every contract field the
  caller supplied; besides the contract fields the record has exactly \<open>id\<close>,
  \<open>timestamp\<close>, \<open>created_at\<close> and \<open>updated_at\<close>, which hold the assigned identifier and
  the three clock readings.
\<close>

theorem create_then_getById:
  assumes valid: "chatEmbeddingSchema J [] (JObj body) = []"
    and created: "createChatEmbedding st u n1 n2 n3 body = (Inr r, st')"
  shows "\<exists>g. getChatEmbeddingById st' u = Inr g \<and> jget r ''id'' = JStr u \<and>
           jget g ''id'' = JStr u \<and> jget g ''timestamp'' = JStr n1 \<and>
           jget g ''created_at'' = JStr n2 \<and> jget g ''updated_at'' = JStr n3 \<and>
           (\<forall>k \<in> set contract_fields.
              jget body k \<noteq> JUndefined \<longrightarrow> jget g k = jget body k) \<and>
           set (keys g) =
             set contract_fields \<union> {''id'', ''timestamp'', ''created_at'', ''updated_at''}"
proof -
  let ?d = "create_document u n1 n2 n3 body"
  let ?g = "public_record (wire ?d)"
  have get: "getChatEmbeddingById st' u = Inr ?g"
    using create_success(1,2) [OF created] getById_created by simp
  have rid: "jget r ''id'' = JStr u"
    unfolding create_success(3) [OF created] by (simp add: jget_Cons)
  have tags: "js_or (jget body ''semantic_tags'') (JArr []) =
      (if jget body ''semantic_tags'' = JUndefined then JArr [] else jget body ''semantic_tags'')"
    using semantic_tags_accepted [OF valid] by (auto simp: js_or_def)
  have ents: "js_or (jget body ''entities_mentioned'') d =
      (if jget body ''entities_mentioned'' = JUndefined then d
       else jget body ''entities_mentioned'')" for d
    using entities_mentioned_accepted [OF valid] by (auto simp: js_or_def)
  have fields: "\<forall>k \<in> set contract_fields. jget body k \<noteq> JUndefined \<longrightarrow> jget ?g k = jget body k"
    unfolding contract_fields_def jget_created
    by (simp add: jget_public_record jget_create_document jget_Cons jget_Nil tags ents
        cong: jget_weak_cong)
  have stamps: "jget ?g ''id'' = JStr u" "jget ?g ''timestamp'' = JStr n1"
    "jget ?g ''created_at'' = JStr n2" "jget ?g ''updated_at'' = JStr n3"
    unfolding jget_created
    by (simp_all add: jget_public_record jget_create_document jget_Cons jget_Nil
        cong: jget_weak_cong)
  have ks: "set (keys ?g) =
      set contract_fields \<union> {''id'', ''timestamp'', ''created_at'', ''updated_at''}"
    unfolding contract_fields_def public_record_def keys_def by (simp add: insert_commute)
  show ?thesis
    using get rid fields stamps ks by (intro exI [of _ ?g] conjI) assumption+
qed

theorem create_then_getById_witness:
  "chatEmbeddingSchema sample_joi [] (JObj sample_embedding) = [] \<and>
   fst (createChatEmbedding [] sample_id sample_time sample_time sample_time sample_embedding) =
     Inr ((''id'', JStr sample_id) #
          create_document sample_id sample_time sample_time sample_time sample_embedding @
          [(''insertedId'', JStr sample_id)]) \<and>
   (\<exists>g. getChatEmbeddingById
          (snd (createChatEmbedding [] sample_id sample_time sample_time sample_time
                  sample_embedding)) sample_id = Inr g \<and>
        jget g ''user_id'' = JStr ''550e8400-e29b-41d4-a716-446655440000'' \<and>
        jget g ''timestamp'' = JStr sample_time)"
proof -
  have fresh: "findOne [] sample_id = None"
    by (simp add: findOne_def)
  note created = create_fresh [OF fresh, of sample_time sample_time sample_time sample_embedding]
  have user: "jget sample_embedding ''user_id'' = JStr ''550e8400-e29b-41d4-a716-446655440000''"
    unfolding sample_embedding_def by (simp add: jget_Cons cong: jget_weak_cong)
  have mem: "''user_id'' \<in> set contract_fields"
    by (simp add: contract_fields_def)
  from create_then_getById [OF sample_embedding_valid created]
  obtain g where g: "getChatEmbeddingById [wire (create_document sample_id sample_time
        sample_time sample_time sample_embedding)] sample_id = Inr g"
      "jget g ''timestamp'' = JStr sample_time"
      "\<forall>k \<in> set contract_fields. jget sample_embedding k \<noteq> JUndefined \<longrightarrow>
         jget g k = jget sample_embedding k"
    by auto
  from g(3) mem user have "jget g ''user_id'' = JStr ''550e8400-e29b-41d4-a716-446655440000''"
    by auto
  with g(1,2) sample_embedding_valid show ?thesis
    by (simp add: created)
qed

subsection \<open>An identifier that matches nothing\<close>

lemma deleteOne_absent: "findOne st i = None \<Longrightarrow> deleteOne st i = (st, 0)"
  by (induction st) (auto simp: findOne_def split: if_splits)

lemma findOneAndUpdate_absent: "findOne st i = None \<Longrightarrow> findOneAndUpdate st i upd = (st, None)"
  by (induction st) (auto simp: findOne_def split: if_splits)

lemma sample_update_valid: "updateChatEmbeddingSchema J [] (JObj sample_update) = []"
  unfolding updateChatEmbeddingSchema_def sample_update_def
  by (simp add: Joi_object_def jget_Cons jget_Nil child_def optional_def Joi_array_def
      Joi_string_def cong: jget_weak_cong)

text \<open>
  Claim C3 (the code departs from it). For an identifier that matches no document, and a
  body the update contract accepts: each service method fails with a generic \<open>Error\<close>
  whose message is \<open>Chat embedding not found\<close> behind the method's prefix, put there by
  its own \<open>catch\<close>. The routes compare the message with the bare text, so none of them
  answers 404: the error goes to the generic handler. The store is left as it was.
\<close>

theorem not_found_is_forwarded:
  assumes absent: "findOne st i = None"
    and valid: "updateChatEmbeddingSchema J [] (JObj body) = []"
  shows "getChatEmbeddingById st i = Inl ''Failed to get chat embedding: Chat embedding not found'' \<and>
         get_route st i = Forwarded ''Failed to get chat embedding: Chat embedding not found'' \<and>
         put_route J st i n1 n2 body =
           (Forwarded ''Failed to update chat embedding: Chat embedding not found'', st) \<and>
         updateChatEmbedding_merge st i n1 body =
           (Inl ''Failed to update chat embedding: Chat embedding not found'', st) \<and>
         delete_route st i =
           (Forwarded ''Failed to delete chat embedding: Chat embedding not found'', st)"
proof -
  have get: "getChatEmbeddingById st i =
      Inl ''Failed to get chat embedding: Chat embedding not found''"
    by (simp add: getChatEmbeddingById_def absent not_found_message_def)
  have upd: "updateChatEmbedding st i n1 n2 body =
      (Inl ''Failed to update chat embedding: Chat embedding not found'', st)"
    by (simp add: updateChatEmbedding_def absent not_found_message_def)
  have del: "deleteChatEmbedding st i =
      (Inl ''Failed to delete chat embedding: Chat embedding not found'', st)"
    by (simp add: deleteChatEmbedding_def deleteOne_absent [OF absent] not_found_message_def)
  have mrg: "updateChatEmbedding_merge st i n1 body =
      (Inl ''Failed to update chat embedding: Chat embedding not found'', st)"
    by (simp add: updateChatEmbedding_merge_def findOneAndUpdate_absent [OF absent]
        not_found_message_def)
  show ?thesis
    by (simp add: get mrg get_route_def put_route_def validate_def valid upd delete_route_def del)
qed

theorem not_found_is_forwarded_witness:
  "findOne [] sample_id = None \<and>
   updateChatEmbeddingSchema sample_joi [] (JObj sample_update) = [] \<and>
   get_route [] sample_id = Forwarded ''Failed to get chat embedding: Chat embedding not found'' \<and>
   get_route [] sample_id \<noteq> NotFound \<and>
   fst (put_route sample_joi [] sample_id sample_time sample_time sample_update) \<noteq> NotFound \<and>
   fst (delete_route [] sample_id) \<noteq> NotFound"
proof -
  have absent: "findOne [] sample_id = None"
    by (simp add: findOne_def)
  from not_found_is_forwarded [OF absent sample_update_valid [of sample_joi], of sample_time sample_time]
  show ?thesis
    using absent sample_update_valid by simp
qed

subsection \<open>Update: whole-record replacement\<close>

lemma jget_replacement_document:
  "jget (replacement_document i n1 n2 d e) k =
   jget [(''_id'', JStr i),
      (''user_id'', jget e ''user_id''),
      (''entry_id'', jget e ''entry_id''),
      (''message_content'', jget e ''message_content''),
      (''message_type'', jget e ''message_type''),
      (''timestamp'', js_or (jget e ''timestamp'') (JStr n1)),
      (''session_id'', jget e ''session_id''),
      (''conversation_context'', jget e ''conversation_context''),
      (''$vector'', jget e ''primary_embedding''),
      (''lightweight_embedding'', jget e ''lightweight_embedding''),
      (''text_length'', jget e ''text_length''),
      (''processing_time_ms'', jget e ''processing_time_ms''),
      (''model_version'', jget e ''model_version''),
      (''semantic_tags'', js_or (jget e ''semantic_tags'') (JArr [])),
      (''emotion_context'', jget e ''emotion_context''),
      (''entities_mentioned'',
         js_or (jget e ''entities_mentioned'')
           (JObj [(''people'', JArr []), (''locations'', JArr []),
                  (''organizations'', JArr [])])),
      (''feature_vector'', jget e ''feature_vector''),
      (''temporal_features'', jget e ''temporal_features''),
      (''emotional_features'', jget e ''emotional_features''),
      (''semantic_features'', jget e ''semantic_features''),
      (''user_features'', jget e ''user_features''),
      (''feature_completeness'', jget e ''feature_completeness''),
      (''confidence_score'', jget e ''confidence_score''),
      (''temporal_context'', jget e ''temporal_context''),
      (''created_at'', jget d ''created_at''),
      (''updated_at'', JStr n2)] k"
  by (simp only: replacement_document_def)

lemma keys_replacement_document: "keys (replacement_document i n1 n2 d e) = document_keys"
  by (simp add: keys_def replacement_document_def document_keys_def)

lemma jget_stored_replacement:
  "jget (wire (replacement_document i n1 n2 d e)) k = jget (replacement_document i n1 n2 d e) k"
  using keys_replacement_document [of i n1 n2 d e] distinct_document_keys
  by (intro jget_wire) (simp add: keys_def)

lemma replacement_has_id: "has_id i (wire (replacement_document i n1 n2 d e))"
  by (simp add: has_id_def jget_stored_replacement jget_replacement_document jget_Cons
      cong: jget_weak_cong)

lemma replaceOne_found:
  "findOne st i = Some d \<Longrightarrow> has_id i (wire doc) \<Longrightarrow>
   snd (replaceOne st i doc) = 1 \<and> findOne (fst (replaceOne st i doc)) i = Some (wire doc)"
  by (induction st) (auto simp: findOne_def split: if_splits)

lemma update_found:
  assumes "findOne st i = Some d"
  shows "updateChatEmbedding st i n1 n2 e =
     (Inr (public_record (wire (replacement_document i n1 n2 d e))),
      fst (replaceOne st i (replacement_document i n1 n2 d e)))"
  using replaceOne_found [OF assms replacement_has_id, of n1 n2 d e]
  by (simp add: updateChatEmbedding_def assms Let_def)

lemma jget_replaced:
  "jget (public_record (wire (replacement_document i n1 n2 d e))) k =
   jget (public_record (replacement_document i n1 n2 d e)) k"
  by (simp only: jget_public_record jget_stored_replacement)

text \<open>
  Claim C1 (the code departs from it). The route \<open>PUT /:id\<close> accepts a partial body,
  and the first version of \<open>updateChatEmbedding\<close> then replaces the whole document by
  what the body holds: every contract field the body omits is cleared in the stored
  document and in the returned record, whatever it held before, and \<open>semantic_tags\<close> and
  \<open>entities_mentioned\<close> are reset to their empty defaults.
\<close>

theorem replace_clears_omitted_fields:
  assumes stored: "findOne st i = Some d"
    and valid: "updateChatEmbeddingSchema J [] (JObj body) = []"
  shows "\<exists>r st'. put_route J st i n1 n2 body = (Ok r, st') \<and>
           getChatEmbeddingById st' i = Inr r \<and>
           (\<forall>k \<in> set cleared_fields. jget body k = JUndefined \<longrightarrow> jget r k = JUndefined) \<and>
           (jget body ''semantic_tags'' = JUndefined \<longrightarrow> jget r ''semantic_tags'' = JArr []) \<and>
           (jget body ''entities_mentioned'' = JUndefined \<longrightarrow>
              jget r ''entities_mentioned'' =
                JObj [(''people'', JArr []), (''locations'', JArr []),
                      (''organizations'', JArr [])])"
proof -
  let ?R = "replacement_document i n1 n2 d body"
  let ?r = "public_record (wire ?R)"
  let ?st = "fst (replaceOne st i ?R)"
  have put: "put_route J st i n1 n2 body = (Ok ?r, ?st)"
    by (simp add: put_route_def validate_def valid update_found [OF stored])
  have get: "getChatEmbeddingById ?st i = Inr ?r"
    using replaceOne_found [OF stored replacement_has_id, of n1 n2 d body]
    by (simp add: getChatEmbeddingById_def)
  have cleared: "\<forall>k \<in> set cleared_fields. jget body k = JUndefined \<longrightarrow> jget ?r k = JUndefined"
    unfolding cleared_fields_def jget_replaced
    by (simp add: jget_public_record jget_replacement_document jget_Cons jget_Nil
        cong: jget_weak_cong)
  have defaults:
    "jget body ''semantic_tags'' = JUndefined \<longrightarrow> jget ?r ''semantic_tags'' = JArr []"
    "jget body ''entities_mentioned'' = JUndefined \<longrightarrow>
       jget ?r ''entities_mentioned'' =
         JObj [(''people'', JArr []), (''locations'', JArr []), (''organizations'', JArr [])]"
    unfolding jget_replaced
    by (simp_all add: jget_public_record jget_replacement_document jget_Cons jget_Nil js_or_def
        cong: jget_weak_cong)
  show ?thesis
    using put get cleared defaults by (intro exI [of _ ?r] exI [of _ ?st] conjI) assumption+
qed

lemma sample_document_id: "findOne [sample_document] sample_id = Some sample_document"
  by (simp add: findOne_def has_id_def sample_document_def jget_stored_create create_document_id)

lemma sample_document_user:
  "jget sample_document ''user_id'' = JStr ''550e8400-e29b-41d4-a716-446655440000''"
  unfolding sample_document_def jget_stored_create jget_create_document sample_embedding_def
  by (simp add: jget_Cons cong: jget_weak_cong)

theorem replace_clears_omitted_fields_witness:
  "findOne [sample_document] sample_id = Some sample_document \<and>
   updateChatEmbeddingSchema sample_joi [] (JObj sample_update) = [] \<and>
   jget sample_document ''user_id'' = JStr ''550e8400-e29b-41d4-a716-446655440000'' \<and>
   jget sample_update ''user_id'' = JUndefined \<and>
   (\<exists>r st'.
      put_route sample_joi [sample_document] sample_id later_time later_time sample_update =
               (Ok r, st') \<and>
            getChatEmbeddingById st' sample_id = Inr r \<and>
            jget r ''user_id'' = JUndefined)"
proof -
  have omitted: "jget sample_update ''user_id'' = JUndefined"
    unfolding sample_update_def by (simp add: jget_Cons jget_Nil cong: jget_weak_cong)
  have mem: "''user_id'' \<in> set cleared_fields"
    by (simp add: cleared_fields_def)
  from replace_clears_omitted_fields [OF sample_document_id sample_update_valid [of sample_joi],
      of later_time later_time]
  obtain r st' where
    "put_route sample_joi [sample_document] sample_id later_time later_time sample_update =
       (Ok r, st')"
    "getChatEmbeddingById st' sample_id = Inr r"
    "\<forall>k \<in> set cleared_fields. jget sample_update k = JUndefined \<longrightarrow> jget r k = JUndefined"
    by blast
  with omitted mem show ?thesis
    using sample_document_id sample_update_valid sample_document_user by blast
qed

subsection \<open>Update: field merge\<close>

text \<open>
  The second version of \<open>updateChatEmbedding\<close> merges: a field the body omits keeps
  its stored value, in the document and in the returned record.
\<close>

lemma jget_assign: "jget (assign ob k v) k' = (if k' = k then v else jget ob k')"
  by (simp add: jget_def assign_def update_conv')

lemma jget_assign_if:
  "jget (assign_if ob (c, k, v)) k' = (if c \<and> k' = k then v else jget ob k')"
  by (simp add: assign_if_def jget_assign)

lemma distinct_assign_if: "distinct (map fst ob) \<Longrightarrow> distinct (map fst (assign_if ob ckv))"
  by (simp add: assign_if_def assign_def distinct_update)

lemma distinct_foldl_assign_if:
  "distinct (map fst ob) \<Longrightarrow> distinct (map fst (foldl assign_if ob cs))"
  by (induction cs arbitrary: ob) (simp_all add: distinct_assign_if)

lemma wire_absent:
  assumes "distinct (map fst ob)" and "jget ob k = JUndefined"
  shows "k \<notin> fst ` set (wire ob)"
proof
  assume "k \<in> fst ` set (wire ob)"
  then obtain v where v: "(k, v) \<in> set ob" "v \<noteq> JUndefined"
    by (auto simp: wire_def)
  with assms(1) have "map_of ob k = Some v"
    by (intro map_of_is_SomeI)
  with assms(2) v(2) show False
    by (simp add: jget_def)
qed

lemma spread_untouched: "k \<notin> fst ` set extra \<Longrightarrow> jget (spread base extra) k = jget base k"
  unfolding spread_def
  by (induction extra arbitrary: base) (auto simp: jget_assign)

lemma jget_merge_update_doc:
  "jget (merge_update_doc now e) k =
   jget (foldl assign_if [(''updated_at'', JStr now)]
       [(truthy (jget e ''primary_embedding''), ''$vector'', jget e ''primary_embedding''),
        (truthy (jget e ''message_content''), ''message_content'', jget e ''message_content''),
        (truthy (jget e ''message_type''), ''message_type'', jget e ''message_type''),
        (truthy (jget e ''conversation_context''),
           ''conversation_context'', jget e ''conversation_context''),
        (truthy (jget e ''lightweight_embedding''),
           ''lightweight_embedding'', jget e ''lightweight_embedding''),
        (jget e ''text_length'' \<noteq> JUndefined, ''text_length'', jget e ''text_length''),
        (jget e ''processing_time_ms'' \<noteq> JUndefined,
           ''processing_time_ms'', jget e ''processing_time_ms''),
        (truthy (jget e ''model_version''), ''model_version'', jget e ''model_version''),
        (truthy (jget e ''semantic_tags''), ''semantic_tags'', jget e ''semantic_tags''),
        (truthy (jget e ''emotion_context''), ''emotion_context'', jget e ''emotion_context''),
        (truthy (jget e ''entities_mentioned''),
           ''entities_mentioned'', jget e ''entities_mentioned''),
        (truthy (jget e ''temporal_context''),
           ''temporal_context'', jget e ''temporal_context'')]) k"
  by (simp only: merge_update_doc_def)

lemma merge_untouched:
  assumes "jget (merge_update_doc now e) k = JUndefined"
  shows "jget (spread d (wire (merge_update_doc now e))) k = jget d k"
proof -
  have "distinct (map fst (merge_update_doc now e))"
    unfolding merge_update_doc_def by (rule distinct_foldl_assign_if) simp
  from wire_absent [OF this assms] show ?thesis
    by (rule spread_untouched)
qed

lemma findOneAndUpdate_found:
  "findOne st i = Some d \<Longrightarrow> snd (findOneAndUpdate st i upd) = Some (spread d (wire upd))"
  by (induction st) (auto simp: findOne_def split: if_splits)

lemma jget_public_record_merge:
  "jget (public_record_merge d) k =
   jget [(''id'', jget d ''_id''),
      (''user_id'', jget d ''user_id''),
      (''entry_id'', jget d ''entry_id''),
      (''message_content'', jget d ''message_content''),
      (''message_type'', jget d ''message_type''),
      (''timestamp'', jget d ''timestamp''),
      (''session_id'', jget d ''session_id''),
      (''conversation_context'', jget d ''conversation_context''),
      (''primary_embedding'', jget d ''$vector''),
      (''lightweight_embedding'', jget d ''lightweight_embedding''),
      (''text_length'', jget d ''text_length''),
      (''processing_time_ms'', jget d ''processing_time_ms''),
      (''model_version'', jget d ''model_version''),
      (''semantic_tags'', jget d ''semantic_tags''),
      (''emotion_context'', jget d ''emotion_context''),
      (''entities_mentioned'', jget d ''entities_mentioned''),
      (''temporal_context'', jget d ''temporal_context''),
      (''created_at'', jget d ''created_at''),
      (''updated_at'', jget d ''updated_at'')] k"
  by (simp only: public_record_merge_def)

lemma merge_update_doc_never:
  "jget (merge_update_doc now e) ''_id'' = JUndefined"
  "jget (merge_update_doc now e) ''user_id'' = JUndefined"
  "jget (merge_update_doc now e) ''entry_id'' = JUndefined"
  "jget (merge_update_doc now e) ''timestamp'' = JUndefined"
  "jget (merge_update_doc now e) ''session_id'' = JUndefined"
  "jget (merge_update_doc now e) ''created_at'' = JUndefined"
  by (simp_all add: jget_merge_update_doc jget_assign_if jget_Cons jget_Nil)

lemma merge_update_doc_omitted:
  "jget e ''message_content'' = JUndefined \<Longrightarrow>
     jget (merge_update_doc now e) ''message_content'' = JUndefined"
  "jget e ''message_type'' = JUndefined \<Longrightarrow>
     jget (merge_update_doc now e) ''message_type'' = JUndefined"
  "jget e ''conversation_context'' = JUndefined \<Longrightarrow>
     jget (merge_update_doc now e) ''conversation_context'' = JUndefined"
  "jget e ''primary_embedding'' = JUndefined \<Longrightarrow>
     jget (merge_update_doc now e) ''$vector'' = JUndefined"
  "jget e ''lightweight_embedding'' = JUndefined \<Longrightarrow>
     jget (merge_update_doc now e) ''lightweight_embedding'' = JUndefined"
  "jget e ''text_length'' = JUndefined \<Longrightarrow>
     jget (merge_update_doc now e) ''text_length'' = JUndefined"
  "jget e ''processing_time_ms'' = JUndefined \<Longrightarrow>
     jget (merge_update_doc now e) ''processing_time_ms'' = JUndefined"
  "jget e ''model_version'' = JUndefined \<Longrightarrow>
     jget (merge_update_doc now e) ''model_version'' = JUndefined"
  "jget e ''semantic_tags'' = JUndefined \<Longrightarrow>
     jget (merge_update_doc now e) ''semantic_tags'' = JUndefined"
  "jget e ''emotion_context'' = JUndefined \<Longrightarrow>
     jget (merge_update_doc now e) ''emotion_context'' = JUndefined"
  "jget e ''entities_mentioned'' = JUndefined \<Longrightarrow>
     jget (merge_update_doc now e) ''entities_mentioned'' = JUndefined"
  "jget e ''temporal_context'' = JUndefined \<Longrightarrow>
     jget (merge_update_doc now e) ''temporal_context'' = JUndefined"
  by (simp_all add: jget_merge_update_doc jget_assign_if jget_Cons jget_Nil)

lemma merge_update_keeps_omitted:
  assumes stored: "findOne st i = Some d"
  shows "\<exists>r st'. updateChatEmbedding_merge st i now body = (Inr r, st') \<and>
           (\<forall>k \<in> set merge_fields.
              jget body k = JUndefined \<longrightarrow> jget r k = jget (public_record_merge d) k)"
proof -
  let ?u = "merge_update_doc now body"
  let ?d' = "spread d (wire ?u)"
  have upd: "updateChatEmbedding_merge st i now body =
      (Inr (public_record_merge ?d'), fst (findOneAndUpdate st i ?u))"
    by (simp add: updateChatEmbedding_merge_def Let_def findOneAndUpdate_found [OF stored])
  note kept = merge_update_doc_never [THEN merge_untouched]
    merge_update_doc_omitted [THEN merge_untouched]
  have "\<forall>k \<in> set merge_fields.
      jget body k = JUndefined \<longrightarrow> jget (public_record_merge ?d') k = jget (public_record_merge d) k"
    unfolding merge_fields_def
    by (simp add: jget_public_record_merge jget_Cons jget_Nil kept cong: jget_weak_cong)
  with upd show ?thesis by blast
qed

subsection \<open>Create, then replace with the same payload\<close>

lemma jget_append_left: "jget a k \<noteq> JUndefined \<Longrightarrow> jget (a @ b) k = jget a k"
  by (auto simp: jget_def map_add_def split: option.splits)

lemma findOne_created:
  assumes "findOne st u = None"
  shows "findOne (st @ [wire (create_document u n1 n2 n3 body)]) u =
         Some (wire (create_document u n1 n2 n3 body))"
  by (simp add: findOne_snoc assms has_id_def jget_stored_create create_document_id)

text \<open>
  What the replacement with the same body keeps, read through
  \<open>getChatEmbeddingById\<close>. For a body \<open>x\<close> accepted by the full creation contract,
  with a clock that does not run backwards: after a successful creation, the replacement
  with the same \<open>x\<close> returns a record with the stored \<open>created_at\<close>, with
  \<open>updated_at\<close> set to the clock reading of the replacement, which is at or after the
  original, with the same keys, and with \<open>id\<close> and every contract field as they are
  read after the creation.
\<close>

lemma create_then_replace:
  assumes valid: "chatEmbeddingSchema J [] (JObj x) = []"
    and created: "createChatEmbedding st u n1 n2 n3 x = (Inr r, st')"
    and clock: "str_le n3 n5"
  shows "\<exists>g r' st''. getChatEmbeddingById st' u = Inr g \<and>
           updateChatEmbedding st' u n4 n5 x = (Inr r', st'') \<and>
           jget r' ''created_at'' = jget g ''created_at'' \<and>
           jget r' ''updated_at'' = JStr n5 \<and>
           js_ge (jget r' ''updated_at'') (jget g ''updated_at'') \<and>
           jget r' ''timestamp'' = js_or (jget x ''timestamp'') (JStr n4) \<and>
           (\<forall>k \<in> set (''id'' # contract_fields). jget r' k = jget g k) \<and>
           keys r' = keys g"
proof -
  let ?D = "create_document u n1 n2 n3 x"
  let ?g = "public_record (wire ?D)"
  let ?R = "replacement_document u n4 n5 (wire ?D) x"
  let ?r = "public_record (wire ?R)"
  note cs = create_success [OF created]
  have get: "getChatEmbeddingById st' u = Inr ?g"
    using cs(1,2) getById_created by simp
  have stored: "findOne st' u = Some (wire ?D)"
    using cs(1,2) findOne_created by simp
  have upd: "updateChatEmbedding st' u n4 n5 x = (Inr ?r, fst (replaceOne st' u ?R))"
    by (rule update_found [OF stored])
  have stamps: "jget ?r ''created_at'' = jget ?g ''created_at''"
    "jget ?r ''updated_at'' = JStr n5" "jget ?g ''updated_at'' = JStr n3"
    "jget ?r ''timestamp'' = js_or (jget x ''timestamp'') (JStr n4)"
    unfolding jget_replaced jget_created
    by (simp_all add: jget_public_record jget_replacement_document jget_create_document
        jget_stored_create jget_Cons jget_Nil cong: jget_weak_cong)
  have ge: "js_ge (jget ?r ''updated_at'') (jget ?g ''updated_at'')"
    by (simp add: stamps js_ge_def clock)
  have same: "\<forall>k \<in> set (''id'' # contract_fields). jget ?r k = jget ?g k"
    unfolding contract_fields_def jget_replaced jget_created
    by (simp add: jget_public_record jget_replacement_document jget_create_document
        jget_Cons jget_Nil cong: jget_weak_cong)
  have ks: "keys ?r = keys ?g"
    by (simp add: keys_def public_record_def)
  show ?thesis
    using get upd stamps(1,2,4) ge same ks
    by (intro exI [of _ ?g] exI [of _ ?r] exI [of _ "fst (replaceOne st' u ?R)"] conjI)
      assumption+
qed

lemma sample_created:
  "createChatEmbedding [] sample_id sample_time sample_time sample_time sample_embedding =
     (Inr ((''id'', JStr sample_id) #
           create_document sample_id sample_time sample_time sample_time sample_embedding @
           [(''insertedId'', JStr sample_id)]),
      [sample_document])"
  unfolding sample_document_def by (rule create_fresh [of "[]", simplified]) (simp add: findOne_def)

lemma sample_times: "str_le sample_time later_time" "sample_time \<noteq> later_time"
  by (simp_all add: sample_time_def later_time_def)

lemma sample_no_timestamp: "jget sample_embedding ''timestamp'' = JUndefined"
  unfolding sample_embedding_def by (simp add: jget_Cons jget_Nil cong: jget_weak_cong)

lemma sample_created_timestamp:
  "jget sample_created_record ''timestamp'' = JStr sample_time"
proof -
  have "jget (create_document sample_id sample_time sample_time sample_time sample_embedding)
      ''timestamp'' = JStr sample_time"
    by (simp add: jget_create_document jget_Cons cong: jget_weak_cong)
  then show ?thesis
    by (simp add: sample_created_record_def jget_Cons jget_append_left)
qed

text \<open>
  Claim C4 (the code departs from it). A body of the creation contract carries no
  \<open>timestamp\<close>. The creation returns a record stamped with its clock reading; the
  replacement with the same body, right after, returns a record whose \<open>timestamp\<close> is
  the clock reading of the replacement, so the \<open>timestamp\<close> changes as soon as the
  clock has moved. The other two stamps are as the claim has them: \<open>created_at\<close> is
  the one of the creation and \<open>updated_at\<close> is refreshed. The comment over the
  replacement document says that it preserves only the id and the timestamps, and the
  field-merge version of the update leaves \<open>timestamp\<close> alone.
\<close>

theorem replace_restamps_timestamp:
  assumes created: "createChatEmbedding st u n1 n2 n3 x = (Inr r, st')"
    and unstamped: "jget x ''timestamp'' = JUndefined"
  shows "\<exists>r' st''. updateChatEmbedding st' u n4 n5 x = (Inr r', st'') \<and>
           jget r ''timestamp'' = JStr n1 \<and> jget r' ''timestamp'' = JStr n4 \<and>
           jget r ''created_at'' = JStr n2 \<and> jget r' ''created_at'' = JStr n2 \<and>
           jget r ''updated_at'' = JStr n3 \<and> jget r' ''updated_at'' = JStr n5"
proof -
  let ?D = "create_document u n1 n2 n3 x"
  let ?R = "replacement_document u n4 n5 (wire ?D) x"
  let ?r = "public_record (wire ?R)"
  note cs = create_success [OF created]
  have stored: "findOne st' u = Some (wire ?D)"
    using cs(1,2) findOne_created by simp
  have upd: "updateChatEmbedding st' u n4 n5 x = (Inr ?r, fst (replaceOne st' u ?R))"
    by (rule update_found [OF stored])
  have document: "jget ?D ''timestamp'' = JStr n1" "jget ?D ''created_at'' = JStr n2"
    "jget ?D ''updated_at'' = JStr n3"
    by (simp_all add: jget_create_document jget_Cons cong: jget_weak_cong)
  have first: "jget r ''timestamp'' = JStr n1" "jget r ''created_at'' = JStr n2"
    "jget r ''updated_at'' = JStr n3"
    unfolding cs(3) by (simp_all add: jget_Cons jget_append_left document)
  have second: "jget ?r ''timestamp'' = JStr n4" "jget ?r ''created_at'' = JStr n2"
    "jget ?r ''updated_at'' = JStr n5"
    unfolding jget_replaced
    by (simp_all add: jget_public_record jget_replacement_document jget_stored_create
        document jget_Cons unstamped js_or_def cong: jget_weak_cong)
  show ?thesis
    using upd first second
    by (intro exI [of _ ?r] exI [of _ "fst (replaceOne st' u ?R)"] conjI) assumption+
qed

theorem replace_restamps_timestamp_witness:
  "chatEmbeddingSchema sample_joi [] (JObj sample_embedding) = [] \<and>
   createChatEmbedding [] sample_id sample_time sample_time sample_time sample_embedding =
     (Inr sample_created_record, [sample_document]) \<and>
   jget sample_embedding ''timestamp'' = JUndefined \<and>
   jget sample_created_record ''timestamp'' = JStr sample_time \<and>
   (\<exists>r' st''.
      updateChatEmbedding [sample_document] sample_id later_time later_time sample_embedding =
        (Inr r', st'') \<and>
      jget r' ''timestamp'' = JStr later_time) \<and>
   JStr later_time \<noteq> JStr sample_time"
proof -
  have created:
    "createChatEmbedding [] sample_id sample_time sample_time sample_time sample_embedding =
       (Inr sample_created_record, [sample_document])"
    by (simp add: sample_created sample_created_record_def)
  from replace_restamps_timestamp [OF created sample_no_timestamp, of later_time later_time]
  have "\<exists>r' st''.
      updateChatEmbedding [sample_document] sample_id later_time later_time sample_embedding =
        (Inr r', st'') \<and>
      jget r' ''timestamp'' = JStr later_time"
    by blast
  then show ?thesis
    using sample_embedding_valid created sample_no_timestamp sample_created_timestamp
      sample_times(2)
    by simp
qed

subsection \<open>Vector lengths at creation\<close>

lemma Joi_object_violation:
  assumes "(k, s) \<in> set fs" and "x \<in> set (s (child p k) (jget ob k))"
  shows "x \<in> set (Joi_object fs p (JObj ob))"
  using assms by (force simp: Joi_object_def)

lemma vector_field_violation:
  assumes "array_length v \<noteq> Some n"
  shows "\<exists>c. (p, c) \<in> set (required (Joi_array items (Some n)) p v)"
  using assms by (cases v) (auto simp: required_def Joi_array_def array_length_def)

lemma vector_fields_in_schema_all:
  "list_all (\<lambda>kn. (fst kn, required (Joi_array (Joi_number J []) (Some (snd kn)))) \<in>
     set [(''user_id'', required (Joi_string [uuid_rule (is_guid J)])),
        (''entry_id'', required (Joi_string [uuid_rule (is_guid J)])),
        (''message_content'', required (Joi_string [min_length 1, max_length 10000])),
        (''message_type'', required (Joi_string_valid message_types)),
        (''session_id'', required (Joi_string [uuid_rule (is_guid J)])),
        (''conversation_context'', optional (Joi_string [max_length 2000])),
        (''primary_embedding'', required (Joi_array (Joi_number J []) (Some 768))),
        (''lightweight_embedding'', required (Joi_array (Joi_number J []) (Some 384))),
        (''text_length'', required (Joi_number J [integer, min_value 0])),
        (''processing_time_ms'', required (Joi_number J [min_value 0])),
        (''model_version'', required (Joi_string [])),
        (''semantic_tags'',
           with_default (JArr []) (optional (Joi_array (Joi_string []) None))),
        (''emotion_context'', optional (emotionContextSchema J)),
        (''entities_mentioned'',
           with_default
             (JObj [(''people'', JArr []), (''locations'', JArr []),
                    (''organizations'', JArr [])])
             (optional entitiesMentionedSchema)),
        (''feature_vector'', required (Joi_array (Joi_number J []) (Some 90))),
        (''temporal_features'', required (Joi_array (Joi_number J []) (Some 25))),
        (''emotional_features'', required (Joi_array (Joi_number J []) (Some 20))),
        (''semantic_features'', required (Joi_array (Joi_number J []) (Some 30))),
        (''user_features'', required (Joi_array (Joi_number J []) (Some 15))),
        (''feature_completeness'', required (Joi_number J [min_value 0, max_value 1])),
        (''confidence_score'', required (Joi_number J [min_value 0, max_value 1])),
        (''temporal_context'', required (temporalContextSchema J))]) vector_lengths"
  by (simp add: vector_lengths_def)

lemma vector_fields_in_schema:
  assumes "(k, n) \<in> set vector_lengths"
  shows "(k, required (Joi_array (Joi_number J []) (Some n))) \<in>
     set [(''user_id'', required (Joi_string [uuid_rule (is_guid J)])),
        (''entry_id'', required (Joi_string [uuid_rule (is_guid J)])),
        (''message_content'', required (Joi_string [min_length 1, max_length 10000])),
        (''message_type'', required (Joi_string_valid message_types)),
        (''session_id'', required (Joi_string [uuid_rule (is_guid J)])),
        (''conversation_context'', optional (Joi_string [max_length 2000])),
        (''primary_embedding'', required (Joi_array (Joi_number J []) (Some 768))),
        (''lightweight_embedding'', required (Joi_array (Joi_number J []) (Some 384))),
        (''text_length'', required (Joi_number J [integer, min_value 0])),
        (''processing_time_ms'', required (Joi_number J [min_value 0])),
        (''model_version'', required (Joi_string [])),
        (''semantic_tags'',
           with_default (JArr []) (optional (Joi_array (Joi_string []) None))),
        (''emotion_context'', optional (emotionContextSchema J)),
        (''entities_mentioned'',
           with_default
             (JObj [(''people'', JArr []), (''locations'', JArr []),
                    (''organizations'', JArr [])])
             (optional entitiesMentionedSchema)),
        (''feature_vector'', required (Joi_array (Joi_number J []) (Some 90))),
        (''temporal_features'', required (Joi_array (Joi_number J []) (Some 25))),
        (''emotional_features'', required (Joi_array (Joi_number J []) (Some 20))),
        (''semantic_features'', required (Joi_array (Joi_number J []) (Some 30))),
        (''user_features'', required (Joi_array (Joi_number J []) (Some 15))),
        (''feature_completeness'', required (Joi_number J [min_value 0, max_value 1])),
        (''confidence_score'', required (Joi_number J [min_value 0, max_value 1])),
        (''temporal_context'', required (temporalContextSchema J))]"
  using assms vector_fields_in_schema_all [of J] unfolding list_all_iff by fastforce

lemma wrong_length_violation:
  assumes "(k, n) \<in> set vector_lengths" and "\<not> has_length body (k, n)"
  shows "\<exists>c. (k, c) \<in> set (chatEmbeddingSchema J [] (JObj body))"
proof -
  from assms(2) obtain c where
    "(k, c) \<in> set (required (Joi_array (Joi_number J []) (Some n)) (child [] k) (jget body k))"
    using vector_field_violation [where v = "jget body k" and n = n and p = k
        and items = "Joi_number J []"]
    by (auto simp: has_length_def child_def)
  then have "(k, c) \<in> set (chatEmbeddingSchema J [] (JObj body))"
    unfolding chatEmbeddingSchema_def
    by (rule Joi_object_violation [OF vector_fields_in_schema [OF assms(1)]])
  then show ?thesis ..
qed

lemma accepted_lengths:
  assumes "chatEmbeddingSchema J [] (JObj body) = []" and "(k, n) \<in> set vector_lengths"
  shows "has_length body (k, n)"
  using wrong_length_violation [OF assms(2), of body J] assms(1) by auto

lemma stored_lengths:
  assumes "chatEmbeddingSchema J [] (JObj body) = []"
  shows "list_all (has_length (wire (create_document u n1 n2 n3 body))) stored_vector_lengths"
proof -
  have "has_length body kn" if "kn \<in> set vector_lengths" for kn
    using accepted_lengths [OF assms, of "fst kn" "snd kn"] that by simp
  then have "list_all (has_length body) vector_lengths"
    by (simp add: list_all_iff)
  then show ?thesis
    unfolding vector_lengths_def stored_vector_lengths_def
    by (simp add: has_length_def jget_stored_create jget_create_document jget_Cons
        cong: jget_weak_cong)
qed

text \<open>
  At creation the lengths are enforced. When some vector field of a creation body is not
  an array of its declared length (768, 384, 90, 25, 20, 30, 15), \<open>POST /\<close> answers
  with the validation error, the violations name such a field, and the store is
  untouched: the service is never called. Hence a document that a creation request
  persists has every vector at its declared length.
\<close>

lemma wrong_vector_length_rejected:
  "(\<not> list_all (has_length body) vector_lengths \<longrightarrow>
      (\<exists>vs. vs \<noteq> [] \<and> (\<exists>kn \<in> set vector_lengths. fst kn \<in> fst ` set vs) \<and>
            post_route J st u n1 n2 n3 body = (BadRequest vs, st))) \<and>
   (\<forall>r st'. post_route J st u n1 n2 n3 body = (Created r, st') \<longrightarrow>
      (\<exists>d. st' = st @ [d] \<and> list_all (has_length d) stored_vector_lengths))"
proof (intro conjI impI allI)
  assume "\<not> list_all (has_length body) vector_lengths"
  then obtain k n where kn: "(k, n) \<in> set vector_lengths" "\<not> has_length body (k, n)"
    by (auto simp: list_all_iff)
  let ?vs = "chatEmbeddingSchema J [] (JObj body)"
  from wrong_length_violation [OF kn] obtain c where c: "(k, c) \<in> set ?vs"
    by blast
  then have ne: "?vs \<noteq> []"
    by auto
  have "post_route J st u n1 n2 n3 body = (BadRequest ?vs, st)"
    using ne by (simp add: post_route_def validate_def)
  moreover have "\<exists>kn \<in> set vector_lengths. fst kn \<in> fst ` set ?vs"
    using kn(1) c by force
  ultimately show "\<exists>vs. vs \<noteq> [] \<and> (\<exists>kn \<in> set vector_lengths. fst kn \<in> fst ` set vs) \<and>
      post_route J st u n1 n2 n3 body = (BadRequest vs, st)"
    using ne by blast
next
  fix r st'
  assume post: "post_route J st u n1 n2 n3 body = (Created r, st')"
  then have valid: "chatEmbeddingSchema J [] (JObj body) = []"
    by (auto simp: post_route_def validate_def Let_def split: if_splits)
  with post have "createChatEmbedding st u n1 n2 n3 body = (Inr r, st')"
    by (auto simp: post_route_def validate_def split: prod.splits sum.splits)
  from create_success(2) [OF this] stored_lengths [OF valid]
  show "\<exists>d. st' = st @ [d] \<and> list_all (has_length d) stored_vector_lengths"
    by blast
qed

lemma sample_posted:
  "post_route sample_joi [] sample_id sample_time sample_time sample_time sample_embedding =
     (Created sample_created_record, [sample_document])"
  by (simp add: post_route_def validate_def sample_embedding_valid sample_created
      sample_created_record_def)

lemma short_embedding_length: "\<not> list_all (has_length short_embedding) vector_lengths"
  by (simp add: vector_lengths_def has_length_def short_embedding_def jget_assign
      array_length_def)

lemma sample_document_lengths: "list_all (has_length sample_document) stored_vector_lengths"
  unfolding sample_document_def by (rule stored_lengths [OF sample_embedding_valid])

lemma sample_update_no_vector: "jget sample_update ''primary_embedding'' = JUndefined"
  unfolding sample_update_def by (simp add: jget_Cons jget_Nil cong: jget_weak_cong)

text \<open>
  Claim C5 (the code departs from it). The lengths are enforced at creation only, so
  not every persisted record has its vectors at their declared lengths. The update
  contract makes every field optional: for a stored document and a body that the
  contract accepts and that omits \<open>primary_embedding\<close>, the route \<open>PUT /:id\<close>
  answers 200 and the whole-record replacement persists a document that has no
  \<open>$vector\<close> at all, whatever the stored document held: the replacement clears
  every field that the body omits, the vectors among them.
\<close>

theorem replace_persists_without_vector:
  assumes stored: "findOne st i = Some d"
    and valid: "updateChatEmbeddingSchema J [] (JObj body) = []"
    and omitted: "jget body ''primary_embedding'' = JUndefined"
  shows "\<exists>r st' d'. put_route J st i n1 n2 body = (Ok r, st') \<and>
           findOne st' i = Some d' \<and>
           jget d' ''$vector'' = JUndefined \<and>
           \<not> list_all (has_length d') stored_vector_lengths"
proof -
  let ?R = "replacement_document i n1 n2 d body"
  let ?r = "public_record (wire ?R)"
  let ?st = "fst (replaceOne st i ?R)"
  have put: "put_route J st i n1 n2 body = (Ok ?r, ?st)"
    by (simp add: put_route_def validate_def valid update_found [OF stored])
  have persisted: "findOne ?st i = Some (wire ?R)"
    using replaceOne_found [OF stored replacement_has_id, of n1 n2 d body] by simp
  have vector: "jget (wire ?R) ''$vector'' = JUndefined"
    unfolding jget_stored_replacement
    by (simp add: jget_replacement_document jget_Cons omitted cong: jget_weak_cong)
  have lengths: "\<not> list_all (has_length (wire ?R)) stored_vector_lengths"
    by (simp add: stored_vector_lengths_def has_length_def vector array_length_def)
  show ?thesis
    using put persisted vector lengths
    by (intro exI [of _ ?r] exI [of _ ?st] exI [of _ "wire ?R"] conjI) assumption+
qed

theorem replace_persists_without_vector_witness:
  "findOne [sample_document] sample_id = Some sample_document \<and>
   list_all (has_length sample_document) stored_vector_lengths \<and>
   updateChatEmbeddingSchema sample_joi [] (JObj sample_update) = [] \<and>
   jget sample_update ''primary_embedding'' = JUndefined \<and>
   (\<exists>r st' d'.
      put_route sample_joi [sample_document] sample_id later_time later_time sample_update =
        (Ok r, st') \<and>
      findOne st' sample_id = Some d' \<and>
      jget d' ''$vector'' = JUndefined \<and>
      \<not> list_all (has_length d') stored_vector_lengths)"
  using replace_persists_without_vector
    [OF sample_document_id sample_update_valid [of sample_joi] sample_update_no_vector,
      of later_time later_time]
    sample_document_id sample_document_lengths sample_update_valid [of sample_joi]
    sample_update_no_vector
  by simp

subsection \<open>Defaults of optional fields\<close>

lemma jprop_JObj: "jprop (JObj ob) k = jget ob k"
  by (simp add: jprop_def)

lemma sample_document_emotion_context:
  "jget sample_document ''emotion_context'' =
     JObj [(''dominant_emotion'', JStr ''fear''), (''intensity'', JNum (7 / 10)),
           (''emotions'', JObj [(''joy'', JNum (1 / 10)), (''fear'', JNum (7 / 10))])]"
  unfolding sample_document_def jget_stored_create jget_create_document sample_embedding_def
  by (simp add: jget_Cons cong: jget_weak_cong)

lemma sample_document_entities:
  "jget sample_document ''entities_mentioned'' = JObj [(''locations'', JArr [JStr ''school''])]"
  unfolding sample_document_def jget_stored_create jget_create_document sample_embedding_def
  by (simp add: jget_Cons js_or_def cong: jget_weak_cong)

text \<open>
  Claim C8 (the code departs from it). The sample body is accepted by the full contract;
  its \<open>emotions\<close> object leaves \<open>sadness\<close> unset and its \<open>entities_mentioned\<close> leaves
  \<open>people\<close> unset. The schema declares the defaults 0 and the empty list for them, but
  \<open>validate\<close> drops the validated copy, and the service defaults only a missing
  \<open>semantic_tags\<close> and a missing \<open>entities_mentioned\<close> as a whole: in the persisted
  document both are still absent.
\<close>

theorem nested_defaults_not_applied:
  "chatEmbeddingSchema sample_joi [] (JObj sample_embedding) = [] \<and>
   post_route sample_joi [] sample_id sample_time sample_time sample_time sample_embedding =
     (Created sample_created_record, [sample_document]) \<and>
   descend (JObj sample_embedding) [''emotion_context'', ''emotions'', ''sadness''] = JUndefined \<and>
   descend (JObj sample_document) [''emotion_context'', ''emotions'', ''joy''] = JNum (1 / 10) \<and>
   descend (JObj sample_document) [''emotion_context'', ''emotions'', ''sadness''] = JUndefined \<and>
   descend (JObj sample_document) [''emotion_context'', ''emotions'', ''sadness''] \<noteq> JNum 0 \<and>
   descend (JObj sample_document) [''entities_mentioned'', ''locations''] = JArr [JStr ''school''] \<and>
   descend (JObj sample_document) [''entities_mentioned'', ''people''] = JUndefined"
proof -
  have "descend (JObj sample_embedding) [''emotion_context'', ''emotions'', ''sadness''] =
      JUndefined"
    unfolding sample_embedding_def
    by (simp add: jprop_JObj jget_Cons jget_Nil cong: jget_weak_cong)
  then show ?thesis
    by (simp add: sample_embedding_valid sample_posted jprop_JObj
        sample_document_emotion_context sample_document_entities jget_Cons jget_Nil)
qed

text \<open>The two defaults that the service itself applies do reach the store.\<close>

lemma create_defaults_top_level:
  assumes "createChatEmbedding st u n1 n2 n3 body = (Inr r, st')"
  shows "\<exists>d. st' = st @ [d] \<and>
     (jget body ''semantic_tags'' = JUndefined \<longrightarrow> jget d ''semantic_tags'' = JArr []) \<and>
     (jget body ''entities_mentioned'' = JUndefined \<longrightarrow>
        jget d ''entities_mentioned'' =
          JObj [(''people'', JArr []), (''locations'', JArr []), (''organizations'', JArr [])])"
  unfolding create_success(2) [OF assms]
  by (simp add: jget_stored_create jget_create_document jget_Cons js_or_def
      cong: jget_weak_cong)

subsection \<open>The value returned by a creation\<close>

text \<open>
  Claim C9 (the code departs from it). The record that \<open>createChatEmbedding\<close> returns
  is \<open>id\<close>, then the store document key for key, then \<open>insertedId\<close>: it carries the
  store's names \<open>_id\<close> and \<open>$vector\<close> and has no \<open>primary_embedding\<close>, unlike the
  record that \<open>getChatEmbeddingById\<close> returns for the same identifier.
\<close>

theorem create_returns_store_shape:
  assumes created: "createChatEmbedding st u n1 n2 n3 body = (Inr r, st')"
  shows "keys r = ''id'' # document_keys @ [''insertedId''] \<and>
         ''_id'' \<in> set (keys r) \<and> ''$vector'' \<in> set (keys r) \<and>
         ''insertedId'' \<in> set (keys r) \<and> ''primary_embedding'' \<notin> set (keys r) \<and>
         jget r ''primary_embedding'' = JUndefined \<and>
         (\<exists>g. getChatEmbeddingById st' u = Inr g \<and>
              ''primary_embedding'' \<in> set (keys g) \<and> ''_id'' \<notin> set (keys g) \<and>
              ''$vector'' \<notin> set (keys g) \<and> ''insertedId'' \<notin> set (keys g) \<and>
              keys g \<noteq> keys r)"
proof -
  note cs = create_success [OF created]
  have ks: "keys r = ''id'' # document_keys @ [''insertedId'']"
    using keys_create_document [of u n1 n2 n3 body] by (simp add: cs(3) keys_def)
  have mem: "''_id'' \<in> set (keys r)" "''$vector'' \<in> set (keys r)"
    "''insertedId'' \<in> set (keys r)" "''primary_embedding'' \<notin> set (keys r)"
    unfolding ks by (simp_all add: document_keys_def)
  have undef: "jget r ''primary_embedding'' = JUndefined"
    using mem(4) by (simp add: jget_def keys_def map_of_eq_None_iff [THEN iffD2])
  let ?g = "public_record (wire (create_document u n1 n2 n3 body))"
  have get: "getChatEmbeddingById st' u = Inr ?g"
    using cs(1,2) getById_created by simp
  have gk: "''primary_embedding'' \<in> set (keys ?g)" "''_id'' \<notin> set (keys ?g)"
    "''$vector'' \<notin> set (keys ?g)" "''insertedId'' \<notin> set (keys ?g)"
    by (simp_all add: keys_def public_record_def)
  from gk(1) mem(4) have "keys ?g \<noteq> keys r"
    by metis
  with ks mem undef get gk show ?thesis
    by blast
qed

theorem create_returns_store_shape_witness:
  "createChatEmbedding [] sample_id sample_time sample_time sample_time sample_embedding =
     (Inr sample_created_record, [sample_document]) \<and>
   ''$vector'' \<in> set (keys sample_created_record) \<and>
   ''primary_embedding'' \<notin> set (keys sample_created_record) \<and>
   (\<exists>g. getChatEmbeddingById [sample_document] sample_id = Inr g \<and>
        ''primary_embedding'' \<in> set (keys g))"
proof -
  have created:
    "createChatEmbedding [] sample_id sample_time sample_time sample_time sample_embedding =
     (Inr sample_created_record, [sample_document])"
    by (simp add: sample_created sample_created_record_def)
  from create_returns_store_shape [OF created] created show ?thesis
    by blast
qed

subsection \<open>Pagination\<close>

lemma floor_div_nat: "\<lfloor>real a / real b\<rfloor> = int (a div b)"
  by (simp add: floor_divide_of_nat_eq)

lemma ceil_div_bounds:
  fixes a b :: nat
  assumes "1 \<le> b"
  shows "a \<le> (a + b - 1) div b * b" and "(a + b - 1) div b * b < a + b"
proof -
  let ?q = "(a + b - 1) div b"
  have "a + b - 1 < b + ?q * b"
    using assms by (intro dividend_less_div_times) simp
  then show "a \<le> ?q * b"
    using assms by linarith
  have "?q * b \<le> a + b - 1"
    by simp
  then show "?q * b < a + b"
    using assms by linarith
qed

lemma ceiling_div_nat:
  fixes a b :: nat
  assumes "1 \<le> b"
  shows "\<lceil>real a / real b\<rceil> = int ((a + b - 1) div b)"
proof (rule ceiling_unique)
  let ?q = "(a + b - 1) div b"
  have b: "0 < real b"
    using assms by simp
  have "real a \<le> real (?q * b)"
    using ceil_div_bounds(1) [OF assms, of a] by (simp only: of_nat_le_iff)
  then show "real a / real b \<le> of_int (int ?q)"
    using b by (simp add: pos_divide_le_eq)
  have "real (?q * b) < real (a + b)"
    using ceil_div_bounds(2) [OF assms, of a] by (simp only: of_nat_less_iff)
  then have "(real ?q - 1) * real b < real a"
    by (simp add: algebra_simps)
  then show "of_int (int ?q) - 1 < real a / real b"
    using b by (simp add: pos_less_divide_eq)
qed

text \<open>
  When \<open>limit\<close> and \<open>offset\<close> are numbers, as the routes that call \<open>parseInt\<close> pass
  them, and the arithmetic is exact at the four values it meets, the metadata are those
  of the formulas: the floor of the quotient plus one, the ceiling of the quotient, and
  the two comparisons.
\<close>

lemma pagination_of_numbers:
  assumes "1 \<le> l"
    and "to_double P (real off / real l) = JNum (real off / real l)"
    and "to_double P (real (off div l) + 1) = JNum (real (off div l) + 1)"
    and "to_double P (real n / real l) = JNum (real n / real l)"
    and "to_double P (real off + real l) = JNum (real off + real l)"
  shows "pagination P (JNum (real off)) (JNum (real l)) (JNum (real n)) =
     [(''total_count'', JNum (real n)),
      (''current_page'', JNum (real (off div l + 1))),
      (''total_pages'', JNum (real ((n + l - 1) div l))),
      (''has_next'', JBool (off + l < n)),
      (''has_previous'', JBool (0 < off))]"
proof -
  have l: "real l \<noteq> 0"
    using assms(1) by simp
  have next_page: "(real off + real l < real n) = (off + l < n)"
    by (simp only: of_nat_add [symmetric] of_nat_less_iff)
  have page: "js_plus P (js_floor (js_divide P (JNum (real off)) (JNum (real l)))) (JNum 1) =
      JNum (real (off div l + 1))"
    using assms(1)
    by (simp add: js_plus_def js_floor_def js_divide_def number_divide_def to_number_def
        number_add_def is_text_def l assms(2,3) floor_div_nat)
  have pages: "js_ceil (js_divide P (JNum (real n)) (JNum (real l))) =
      JNum (real ((n + l - 1) div l))"
    using assms(1)
    by (simp add: js_ceil_def js_divide_def number_divide_def to_number_def l assms(4)
        ceiling_div_nat [OF assms(1)])
  have more: "js_less P (js_plus P (JNum (real off)) (JNum (real l))) (JNum (real n)) =
      (off + l < n)"
    by (simp add: js_less_def js_plus_def number_add_def number_less_def to_number_def
        is_text_def assms(5) next_page)
  have previous: "js_less P (JNum 0) (JNum (real off)) = (0 < off)"
    by (simp add: js_less_def number_less_def to_number_def is_text_def)
  show ?thesis
    unfolding pagination_def by (simp only: page pages more previous)
qed

lemma sample_list_query:
  "list_query (sample_query page_offset page_limit) = [(''message_type'', JStr ''user_message'')]"
  by (simp add: list_query_def sample_query_def assign_if_def assign_def jget_Cons jget_Nil)

lemma matches_message_type:
  "matches [(''message_type'', JStr ty)] (message_document ty' i) = (ty' = ty)"
  by (simp add: matches_def message_document_def condition_holds_def jprop_def jget_Cons)

lemma sample_count:
  "countDocuments sample_collection [(''message_type'', JStr ''user_message'')] = 25"
  by (simp add: countDocuments_def wire_def sample_collection_def filter_map comp_def
      matches_message_type)

lemma sample_query_accepted:
  assumes "as_number J ''10'' = Converted 10"
  shows "querySchema J [] (JObj (sample_query (JStr ''10'') (JStr ''10''))) = []"
  by (simp add: querySchema_def sample_query_def Joi_object_def jget_Cons jget_Nil child_def
      optional_def with_default_def Joi_string_valid_def message_types_def Joi_number_def
      number_rules_def assms map_filter_simps integer_def min_value_def max_value_def)

lemma pagination_of_strings:
  assumes "string_to_number P ''10'' = JNum 10" and "string_to_number P ''1010'' = JNum 1010"
    and "to_double P 1 = JNum 1" and "to_double P 2 = JNum 2"
    and "to_double P (5 / 2) = JNum (5 / 2)"
  shows "pagination P (JStr ''10'') (JStr ''10'') (JNum 25) =
     [(''total_count'', JNum 25), (''current_page'', JNum 2), (''total_pages'', JNum 3),
      (''has_next'', JBool False), (''has_previous'', JBool True)]"
proof -
  have page: "js_plus P (js_floor (js_divide P (JStr ''10'') (JStr ''10''))) (JNum 1) = JNum 2"
    by (simp add: js_plus_def js_floor_def js_divide_def number_divide_def to_number_def
        number_add_def is_text_def assms)
  have "\<lceil>5 / 2 :: real\<rceil> = 3"
    by (simp add: ceiling_eq_iff)
  then have pages: "js_ceil (js_divide P (JNum 25) (JStr ''10'')) = JNum 3"
    by (simp add: js_ceil_def js_divide_def number_divide_def to_number_def assms)
  have sum: "js_plus P (JStr ''10'') (JStr ''10'') = JStr ''1010''"
    by (simp add: js_plus_def is_text_def)
  have more: "js_less P (js_plus P (JStr ''10'') (JStr ''10'')) (JNum 25) = False"
    unfolding sum by (simp add: js_less_def number_less_def to_number_def is_text_def assms)
  have previous: "js_less P (JNum 0) (JStr ''10'') = True"
    by (simp add: js_less_def number_less_def to_number_def is_text_def assms)
  show ?thesis
    unfolding pagination_def by (simp only: page pages more previous)
qed

text \<open>
  Claim C7 (the code departs from it). The request \<open>GET /query\<close> for the user
  messages with \<open>limit=10\<close> and \<open>offset=10\<close>, over 25 matching documents, passes the
  contract of the query string, and the handler gives the service the two strings: the
  sum \<open>offset + limit\<close> is the string \<open>1010\<close>, and the answer is page 2 of 3 with
  \<open>has_next\<close> false. By the claim \<open>has_next\<close> is \<open>10 + 10 < 25\<close>, true; it is what
  the service answers to the same options as numbers. What the statement takes from the
  library and the platform: Joi reads \<open>10\<close> as the number ten, the strings \<open>10\<close> and
  \<open>1010\<close> convert to the numbers they write, and the arithmetic is exact at 1, 2, 5/2,
  20 and 25.
\<close>

theorem query_route_adds_strings:
  assumes "as_number J ''10'' = Converted 10"
    and "string_to_number P ''10'' = JNum 10" and "string_to_number P ''1010'' = JNum 1010"
    and "to_double P 1 = JNum 1" and "to_double P 2 = JNum 2"
    and "to_double P (5 / 2) = JNum (5 / 2)"
    and "to_double P 20 = JNum 20" and "to_double P 25 = JNum 25"
    and "countDocuments st [(''message_type'', JStr ''user_message'')] = 25"
  shows "(\<exists>results.
            query_route J P st (sample_query (JStr ''10'') (JStr ''10'')) =
              Ok [(''results'', results),
                  (''pagination'',
                     JObj [(''total_count'', JNum 25), (''current_page'', JNum 2),
                           (''total_pages'', JNum 3), (''has_next'', JBool False),
                           (''has_previous'', JBool True)])]) \<and>
         jget (queryChatEmbeddings P st (sample_query (JNum 10) (JNum 10))) ''pagination'' =
           JObj [(''total_count'', JNum 25), (''current_page'', JNum 2),
                 (''total_pages'', JNum 3), (''has_next'', JBool True),
                 (''has_previous'', JBool True)]"
proof
  have limits: "default_to (JNum 20) (jget (sample_query a b) ''limit'') =
      (if b = JUndefined then JNum 20 else b)"
    "default_to (JNum 0) (jget (sample_query a b) ''offset'') =
      (if a = JUndefined then JNum 0 else a)" for a b
    by (simp_all add: default_to_def sample_query_def jget_Cons)
  have "queryChatEmbeddings P st (sample_query (JStr ''10'') (JStr ''10'')) =
      [(''results'',
          JArr (map (\<lambda>result. JObj (list_record result))
            (find_sorted st [(''message_type'', JStr ''user_message'')]
               (to_string P (default_to (JStr ''timestamp'')
                  (jget (sample_query (JStr ''10'') (JStr ''10'')) ''sort_by'')))
               (default_to (JStr ''desc'')
                  (jget (sample_query (JStr ''10'') (JStr ''10'')) ''sort_order'') = JStr ''asc'')
               (cursor_count P (JStr ''10'')) (cursor_count P (JStr ''10''))))),
       (''pagination'',
          JObj [(''total_count'', JNum 25), (''current_page'', JNum 2),
                (''total_pages'', JNum 3), (''has_next'', JBool False),
                (''has_previous'', JBool True)])]"
    unfolding queryChatEmbeddings_def Let_def limits sample_list_query assms(9) of_nat_numeral
      assms(8)
    by (simp add: pagination_of_strings [OF assms(2-6)])
  then show "\<exists>results.
      query_route J P st (sample_query (JStr ''10'') (JStr ''10'')) =
        Ok [(''results'', results),
            (''pagination'',
               JObj [(''total_count'', JNum 25), (''current_page'', JNum 2),
                     (''total_pages'', JNum 3), (''has_next'', JBool False),
                     (''has_previous'', JBool True)])]"
    by (simp add: query_route_def validateQuery_def sample_query_accepted [OF assms(1)])
  have numbers: "pagination P (JNum (real (10 :: nat))) (JNum (real (10 :: nat)))
      (JNum (real (25 :: nat))) =
     [(''total_count'', JNum (real (25 :: nat))),
      (''current_page'', JNum (real ((10 :: nat) div 10 + 1))),
      (''total_pages'', JNum (real (((25 :: nat) + 10 - 1) div 10))),
      (''has_next'', JBool ((10 :: nat) + 10 < 25)),
      (''has_previous'', JBool (0 < (10 :: nat)))]"
    by (rule pagination_of_numbers) (simp_all add: assms)
  show "jget (queryChatEmbeddings P st (sample_query (JNum 10) (JNum 10))) ''pagination'' =
      JObj [(''total_count'', JNum 25), (''current_page'', JNum 2),
            (''total_pages'', JNum 3), (''has_next'', JBool True),
            (''has_previous'', JBool True)]"
    unfolding queryChatEmbeddings_def Let_def limits sample_list_query assms(9) of_nat_numeral
      assms(8)
    using numbers by (simp add: jget_Cons)
qed

lemma sample_conversions:
  "as_number sample_joi ''10'' = Converted 10"
  "string_to_number sample_platform ''10'' = JNum 10"
  "string_to_number sample_platform ''1010'' = JNum 1010"
  "to_double sample_platform x = JNum x"
  by (simp_all add: sample_joi_def sample_platform_def decimal_value_def digit_value_def)

theorem query_route_adds_strings_witness:
  "as_number sample_joi ''10'' = Converted 10 \<and>
   string_to_number sample_platform ''10'' = JNum 10 \<and>
   string_to_number sample_platform ''1010'' = JNum 1010 \<and>
   to_double sample_platform 1 = JNum 1 \<and> to_double sample_platform 2 = JNum 2 \<and>
   to_double sample_platform (5 / 2) = JNum (5 / 2) \<and>
   to_double sample_platform 20 = JNum 20 \<and> to_double sample_platform 25 = JNum 25 \<and>
   countDocuments sample_collection [(''message_type'', JStr ''user_message'')] = 25 \<and>
   (\<exists>results.
      query_route sample_joi sample_platform sample_collection
        (sample_query (JStr ''10'') (JStr ''10'')) =
        Ok [(''results'', results),
            (''pagination'',
               JObj [(''total_count'', JNum 25), (''current_page'', JNum 2),
                     (''total_pages'', JNum 3), (''has_next'', JBool False),
                     (''has_previous'', JBool True)])]) \<and>
   jget (queryChatEmbeddings sample_platform sample_collection (sample_query (JNum 10) (JNum 10)))
     ''pagination'' =
     JObj [(''total_count'', JNum 25), (''current_page'', JNum 2), (''total_pages'', JNum 3),
           (''has_next'', JBool True), (''has_previous'', JBool True)]"
  using query_route_adds_strings [of sample_joi sample_platform sample_collection]
  by (simp only: sample_conversions sample_count simp_thms)

subsection \<open>Which operations return the vectors\<close>

lemma query_results:
  "result_records (queryChatEmbeddings P st q) =
     map list_record
       (find_sorted st (list_query q)
          (to_string P (default_to (JStr ''timestamp'') (jget q ''sort_by'')))
          (default_to (JStr ''desc'') (jget q ''sort_order'') = JStr ''asc'')
          (cursor_count P (default_to (JNum 0) (jget q ''offset'')))
          (cursor_count P (default_to (JNum 20) (jget q ''limit''))))"
  by (simp add: result_records_def queryChatEmbeddings_def Let_def jget_Cons comp_def)

lemma similar_results:
  "result_records (findSimilarChatEmbeddings sim st qv lim_opt fs_opt) =
     map similar_record
       (find_by_vector sim st
          (similar_query (case fs_opt of None \<Rightarrow> [] | Some f \<Rightarrow> f)) qv
          (case lim_opt of None \<Rightarrow> 10 | Some l \<Rightarrow> l))"
  by (simp add: result_records_def findSimilarChatEmbeddings_def Let_def jget_Cons comp_def)

lemma find_by_vector_source:
  assumes "d' \<in> set (find_by_vector sim st query qv n)"
  shows "\<exists>d \<in> set st. d' = assign d ''$similarity'' (JNum (sim qv (jget d ''$vector'')))"
proof -
  from assms have "d' \<in> set (map (\<lambda>d. assign d ''$similarity'' (JNum (sim qv (jget d ''$vector''))))
      (filter (matches (wire query)) st))"
    unfolding find_by_vector_def by (auto dest: in_set_takeD)
  then show ?thesis by auto
qed

lemma list_record_keys:
  "''primary_embedding'' \<notin> set (keys (list_record d))"
  "''lightweight_embedding'' \<notin> set (keys (list_record d))"
  by (simp_all add: keys_def list_record_def)

lemma jget_similar_record:
  "jget (similar_record d) ''primary_embedding'' = jget d ''$vector''"
  "jget (similar_record d) ''lightweight_embedding'' = jget d ''lightweight_embedding''"
  "''primary_embedding'' \<in> set (keys (similar_record d))"
  "''lightweight_embedding'' \<in> set (keys (similar_record d))"
  by (simp_all add: similar_record_def jget_Cons keys_def)

lemma public_record_vectors:
  "jget (public_record d) ''primary_embedding'' = jget d ''$vector''"
  "jget (public_record d) ''lightweight_embedding'' = jget d ''lightweight_embedding''"
  "''primary_embedding'' \<in> set (keys (public_record d))"
  "''lightweight_embedding'' \<in> set (keys (public_record d))"
  by (simp_all add: jget_public_record jget_Cons keys_def public_record_def
      cong: jget_weak_cong)

text \<open>
  Claim C10. No record in the \<open>results\<close> of the paginated query has a
  \<open>primary_embedding\<close> or a \<open>lightweight_embedding\<close> key. Every record in the
  \<open>results\<close> of the similarity search, and the record \<open>getChatEmbeddingById\<close>
  returns, has both keys, holding the \<open>$vector\<close> and the \<open>lightweight_embedding\<close> of
  the store document it was made from.
\<close>

theorem vectors_by_operation:
  "(\<forall>item \<in> set (result_records (queryChatEmbeddings P st q)).
      ''primary_embedding'' \<notin> set (keys item) \<and>
      ''lightweight_embedding'' \<notin> set (keys item)) \<and>
   (\<forall>item \<in> set (result_records (findSimilarChatEmbeddings sim st qv lim_opt fs_opt)).
      ''primary_embedding'' \<in> set (keys item) \<and>
      ''lightweight_embedding'' \<in> set (keys item) \<and>
      (\<exists>d \<in> set st. jget item ''primary_embedding'' = jget d ''$vector'' \<and>
         jget item ''lightweight_embedding'' = jget d ''lightweight_embedding'')) \<and>
   (\<forall>g. getChatEmbeddingById st i = Inr g \<longrightarrow>
      ''primary_embedding'' \<in> set (keys g) \<and> ''lightweight_embedding'' \<in> set (keys g) \<and>
      (\<exists>d. findOne st i = Some d \<and> jget g ''primary_embedding'' = jget d ''$vector'' \<and>
         jget g ''lightweight_embedding'' = jget d ''lightweight_embedding''))"
proof (intro conjI ballI allI impI)
  fix item
  assume "item \<in> set (result_records (queryChatEmbeddings P st q))"
  then obtain d where "item = list_record d"
    unfolding query_results by auto
  then show "''primary_embedding'' \<notin> set (keys item)"
    and "''lightweight_embedding'' \<notin> set (keys item)"
    by (simp_all add: list_record_keys)
next
  fix item
  assume "item \<in> set (result_records (findSimilarChatEmbeddings sim st qv lim_opt fs_opt))"
  then obtain d' where d': "item = similar_record d'"
    "d' \<in> set (find_by_vector sim st
        (similar_query (case fs_opt of None \<Rightarrow> [] | Some f \<Rightarrow> f)) qv
        (case lim_opt of None \<Rightarrow> 10 | Some l \<Rightarrow> l))"
    unfolding similar_results by auto
  from find_by_vector_source [OF d'(2)] obtain d where d: "d \<in> set st"
    "d' = assign d ''$similarity'' (JNum (sim qv (jget d ''$vector'')))"
    by blast
  show "''primary_embedding'' \<in> set (keys item)"
    and "''lightweight_embedding'' \<in> set (keys item)"
    by (simp_all add: d'(1) jget_similar_record)
  have "jget item ''primary_embedding'' = jget d ''$vector''"
    "jget item ''lightweight_embedding'' = jget d ''lightweight_embedding''"
    by (simp_all add: d'(1) d(2) jget_similar_record jget_assign)
  with d(1) show "\<exists>d \<in> set st. jget item ''primary_embedding'' = jget d ''$vector'' \<and>
      jget item ''lightweight_embedding'' = jget d ''lightweight_embedding''"
    by blast
next
  fix g
  assume "getChatEmbeddingById st i = Inr g"
  then obtain d where d: "findOne st i = Some d" "g = public_record d"
    by (auto simp: getChatEmbeddingById_def split: option.splits)
  show "''primary_embedding'' \<in> set (keys g)" and "''lightweight_embedding'' \<in> set (keys g)"
    by (simp_all add: d(2) public_record_vectors)
  show "\<exists>d. findOne st i = Some d \<and> jget g ''primary_embedding'' = jget d ''$vector'' \<and>
      jget g ''lightweight_embedding'' = jget d ''lightweight_embedding''"
    using d by (simp add: public_record_vectors)
qed

lemma sample_document_vectors:
  "jget sample_document ''$vector'' = JArr (replicate 768 (JNum (1 / 10)))"
  "jget sample_document ''lightweight_embedding'' = JArr (replicate 384 (JNum (2 / 10)))"
  unfolding sample_document_def jget_stored_create jget_create_document sample_embedding_def
  by (simp_all add: jget_Cons cong: jget_weak_cong)

lemma plain_list_query: "list_query plain_query = []"
  by (simp add: list_query_def plain_query_def assign_if_def jget_Nil)

lemma matches_all: "matches (wire []) d"
  by (simp add: matches_def wire_def)

lemma plain_query_results:
  "result_records (queryChatEmbeddings sample_platform [sample_document] plain_query) =
     [list_record sample_document]"
  by (simp add: query_results plain_list_query find_sorted_def matches_all)
    (simp add: plain_query_def jget_Nil default_to_def sample_platform_def)

lemma plain_similar_results:
  "result_records
     (findSimilarChatEmbeddings unit_similarity [sample_document] (replicate 768 0) None None) =
     [similar_record (assign sample_document ''$similarity'' (JNum 1))]"
  by (simp add: similar_results find_by_vector_def similar_query_def assign_if_def jget_Nil
      matches_all unit_similarity_def)

theorem vectors_by_operation_witness:
  "result_records (queryChatEmbeddings sample_platform [sample_document] plain_query) =
     [list_record sample_document] \<and>
   ''primary_embedding'' \<notin> set (keys (list_record sample_document)) \<and>
   ''lightweight_embedding'' \<notin> set (keys (list_record sample_document)) \<and>
   (\<exists>item. result_records
        (findSimilarChatEmbeddings unit_similarity [sample_document] (replicate 768 0)
           None None) = [item] \<and>
      jget item ''primary_embedding'' = JArr (replicate 768 (JNum (1 / 10))) \<and>
      jget item ''lightweight_embedding'' = JArr (replicate 384 (JNum (2 / 10)))) \<and>
   (\<exists>g. getChatEmbeddingById [sample_document] sample_id = Inr g \<and>
      jget g ''primary_embedding'' = JArr (replicate 768 (JNum (1 / 10))) \<and>
      jget g ''lightweight_embedding'' = JArr (replicate 384 (JNum (2 / 10))))"
proof -
  note all = vectors_by_operation [of sample_platform "[sample_document]" plain_query
      unit_similarity "replicate 768 0" None None sample_id]
  have get: "getChatEmbeddingById [sample_document] sample_id =
      Inr (public_record sample_document)"
    by (simp add: getChatEmbeddingById_def sample_document_id)
  from all have "''primary_embedding'' \<notin> set (keys (list_record sample_document)) \<and>
      ''lightweight_embedding'' \<notin> set (keys (list_record sample_document))"
    unfolding plain_query_results by simp
  moreover from all have
    "jget (similar_record (assign sample_document ''$similarity'' (JNum 1)))
        ''primary_embedding'' = jget sample_document ''$vector'' \<and>
     jget (similar_record (assign sample_document ''$similarity'' (JNum 1)))
        ''lightweight_embedding'' = jget sample_document ''lightweight_embedding''"
    unfolding plain_similar_results by simp
  moreover from all get have
    "jget (public_record sample_document) ''primary_embedding'' =
        jget sample_document ''$vector'' \<and>
     jget (public_record sample_document) ''lightweight_embedding'' =
        jget sample_document ''lightweight_embedding''"
    by (simp add: sample_document_id)
  ultimately show ?thesis
    by (simp add: plain_query_results plain_similar_results get sample_document_vectors)
qed

subsection \<open>The filter of the similarity search\<close>

lemma jget_without: "jget (filter (\<lambda>kv. fst kv \<noteq> k) ob) k = JUndefined"
proof -
  have "map_of (filter (\<lambda>kv. fst kv \<noteq> k) ob) k = None"
    by (auto simp: map_of_eq_None_iff)
  then show ?thesis
    by (simp add: jget_def)
qed

lemma plain_document_no_emotion: "jget plain_document ''emotion_context'' = JUndefined"
  unfolding plain_document_def jget_stored_create jget_create_document plain_embedding_def
  by (simp add: jget_Cons jget_without cong: jget_weak_cong)

lemma plain_embedding_valid: "chatEmbeddingSchema sample_joi [] (JObj plain_embedding) = []"
  unfolding chatEmbeddingSchema_def plain_embedding_def sample_embedding_def
  by (simp add: Joi_object_def jget_Cons jget_Nil child_def required_def optional_def
      with_default_def Joi_array_accepts Joi_number_plain Joi_string_def Joi_number_def
      uuid_rule_def sample_joi_def sample_guid_def min_length_def max_length_def
      Joi_string_valid_def number_rules_def map_filter_simps message_types_def
      integer_def min_value_def max_value_def Joi_boolean_def
      entitiesMentionedSchema_def temporalContextSchema_def)

text \<open>
  The guard \<open>if (filters.emotion_filter.min_intensity)\<close> tests the number for
  truthiness: every minimum but 0 becomes the constraint \<open>$gte\<close>, and 0 becomes no
  constraint at all.
\<close>

lemma min_intensity_constraint:
  assumes "jget filters ''emotion_filter'' = JObj ef" and "jget ef ''min_intensity'' = JNum m"
  shows "jget (similar_query filters) ''emotion_context.intensity'' =
     (if m = 0 then JUndefined else JObj [(''$gte'', JNum m)])"
  by (simp add: similar_query_def jget_assign_if jget_Nil assms jprop_def)

lemma similar_query_intensity:
  "similar_query (intensity_filter 0) = []"
  "m \<noteq> 0 \<Longrightarrow> similar_query (intensity_filter m) =
     [(''emotion_context.intensity'', JObj [(''$gte'', JNum m)])]"
  by (simp_all add: similar_query_def intensity_filter_def assign_if_def assign_def
      jget_Cons jget_Nil jprop_def)

lemma split_intensity_path:
  "split_dots ''emotion_context.intensity'' = [''emotion_context'', ''intensity'']"
  by simp

lemma date_condition_bounds:
  "s \<noteq> [] \<Longrightarrow> e \<noteq> [] \<Longrightarrow>
     date_condition (JObj [(''start'', JStr s), (''end'', JStr e)]) =
       [(''$gte'', JStr s), (''$lte'', JStr e)]"
  "s \<noteq> [] \<Longrightarrow> date_condition (JObj [(''start'', JStr s)]) = [(''$gte'', JStr s)]"
  "e \<noteq> [] \<Longrightarrow> date_condition (JObj [(''end'', JStr e)]) = [(''$lte'', JStr e)]"
  by (simp_all add: date_condition_def assign_if_def assign_def jprop_def jget_Cons jget_Nil)

text \<open>
  Claim C6 (the code departs from it). A document created from a body without the
  optional \<open>emotion_context\<close> has no intensity. A search whose filter asks for
  \<open>min_intensity\<close> 0 sends the store the empty filter and gets that document back; the
  same search with \<open>min_intensity\<close> 1/2 sends the constraint and gets nothing. The claim
  has the bound applied for every minimum in [0, 1], 0 included, so that only records
  with an intensity of at least the minimum come back.
\<close>

theorem zero_min_intensity_ignored:
  "chatEmbeddingSchema sample_joi [] (JObj plain_embedding) = [] \<and>
   descend (JObj plain_document) [''emotion_context'', ''intensity''] = JUndefined \<and>
   similar_query (intensity_filter 0) = [] \<and>
   similar_query (intensity_filter (1 / 2)) =
     [(''emotion_context.intensity'', JObj [(''$gte'', JNum (1 / 2))])] \<and>
   result_records
     (findSimilarChatEmbeddings unit_similarity [plain_document] (replicate 768 0) (Some 10)
        (Some (intensity_filter 0))) =
     [similar_record (assign plain_document ''$similarity'' (JNum 1))] \<and>
   result_records
     (findSimilarChatEmbeddings unit_similarity [plain_document] (replicate 768 0) (Some 10)
        (Some (intensity_filter (1 / 2)))) = []"
proof -
  have absent: "descend (JObj plain_document) [''emotion_context'', ''intensity''] = JUndefined"
    by (simp add: jprop_def plain_document_no_emotion)
  have zero: "result_records
     (findSimilarChatEmbeddings unit_similarity [plain_document] (replicate 768 0) (Some 10)
        (Some (intensity_filter 0))) =
     [similar_record (assign plain_document ''$similarity'' (JNum 1))]"
    by (simp add: similar_results find_by_vector_def similar_query_intensity matches_all
        unit_similarity_def)
  have "\<not> matches [(''emotion_context.intensity'', JObj [(''$gte'', JNum (1 / 2))])]
      plain_document"
    unfolding matches_def
    by (simp only: list.pred_inject fst_conv snd_conv split_intensity_path absent)
      (simp add: condition_holds_def operator_holds_def js_ge_def)
  then have half: "result_records
     (findSimilarChatEmbeddings unit_similarity [plain_document] (replicate 768 0) (Some 10)
        (Some (intensity_filter (1 / 2)))) = []"
    by (simp add: similar_results find_by_vector_def similar_query_intensity wire_def)
  show ?thesis
    using absent zero half by (simp add: plain_embedding_valid similar_query_intensity)
qed

end
